theory Spec2Isabelle
  imports Complex_Main "HOL-Library.Word" "HOL-Library.Multiset"
begin

section \<open>Go library functions used by the adapters\<close>

text \<open>
  Strings are byte strings, as in Go. The functions of package \<open>strings\<close> that the
  sources call are written out on character lists.
\<close>

definition HasPrefix :: "string \<Rightarrow> string \<Rightarrow> bool" where
  "HasPrefix s p = (take (length p) s = p)"

definition CutPrefix :: "string \<Rightarrow> string \<Rightarrow> string \<times> bool" where
  "CutPrefix s p = (if HasPrefix s p then (drop (length p) s, True) else (s, False))"





fun Join :: "string list \<Rightarrow> string \<Rightarrow> string" where
  "Join [] sep = []"
| "Join [x] sep = x"
| "Join (x # y # ys) sep = x @ sep @ Join (y # ys) sep"

text \<open>
  A Go map is modelled as an association list with one entry per key. The position of an
  entry stands for the unspecified order in which \<open>range\<close> visits the map; \<open>map_put\<close>
  is the assignment \<open>m[k] = v\<close>, \<open>map_of\<close> the lookup and \<open>map_delete\<close> the
  builtin \<open>delete\<close>.
\<close>

fun map_put :: "'k \<Rightarrow> 'v \<Rightarrow> ('k \<times> 'v) list \<Rightarrow> ('k \<times> 'v) list" where
  "map_put k v [] = [(k, v)]"
| "map_put k v ((k', v') # m) = (if k = k' then (k, v) # m else (k', v') # map_put k v m)"

fun map_delete :: "'k \<Rightarrow> ('k \<times> 'v) list \<Rightarrow> ('k \<times> 'v) list" where
  "map_delete k [] = []"
| "map_delete k ((k', v') # m) = (if k = k' then map_delete k m else (k', v') # map_delete k m)"


section \<open>The unified request and response (packages genai and model)\<close>

text \<open>
  \<open>'j\<close> is the type of the values a \<open>map[string]any\<close> holds. Pointer fields that
  the sources compare with \<open>nil\<close> are options. The elements of \<open>Parts\<close> are taken to
  be non-nil: the sources dereference them without a check.
\<close>

record 'j FunctionCall =
  fc_ID :: string
  fc_Name :: string
  fc_Args :: "string \<rightharpoonup> 'j"

record 'j FunctionResponse =
  fr_ID :: string
  fr_Name :: string
  fr_Response :: "string \<rightharpoonup> 'j"

record 'j Part =
  p_Text :: string
  p_Thought :: bool
  p_FunctionCall :: "'j FunctionCall option"
  p_FunctionResponse :: "'j FunctionResponse option"

record 'j Content =
  c_Role :: string
  c_Parts :: "'j Part list"

record 'j FunctionDeclaration =
  fd_Name :: string
  fd_Description :: string
  fd_ParametersJsonSchema :: "'j option"
  fd_Parameters :: "'j option"
  fd_ResponseJsonSchema :: "'j option"

record 'j GenaiTool =
  gt_FunctionDeclarations :: "'j FunctionDeclaration list"

record 'j GenerateContentConfig =
  cfg_SystemInstruction :: "'j Content option"
  cfg_Tools :: "'j GenaiTool option list"
  cfg_Temperature :: "real option"
  cfg_MaxOutputTokens :: "32 word"
  cfg_TopP :: "real option"
  cfg_StopSequences :: "string list"

record 'j LLMRequest =
  req_Contents :: "'j Content option list"
  req_Config :: "'j GenerateContentConfig option"

record UsageMetadata =
  PromptTokenCount :: "32 word"
  CandidatesTokenCount :: "32 word"
  TotalTokenCount :: "32 word"

datatype FinishReason =
  FinishReasonUnset | FinishReasonUnspecified | FinishReasonStop | FinishReasonMaxTokens

record 'j LLMResponse =
  r_Content :: "'j Content option"
  r_UsageMetadata :: "UsageMetadata option"
  r_FinishReason :: FinishReason
  r_Partial :: bool
  r_TurnComplete :: bool


section \<open>The Anthropic wire types (types.go)\<close>

record ContentBlock =
  cb_Type :: string
  cb_Text :: string
  cb_Thinking :: string
  cb_ID :: string
  cb_Name :: string
  cb_Input :: string
  cb_ToolUseID :: string
  cb_RawContent :: string
  cb_IsError :: bool

record Message =
  m_Role :: string
  m_Content :: "ContentBlock list"

record Tool =
  t_Name :: string
  t_Description :: string
  t_InputSchema :: string

record MessagesRequest =
  mr_Model :: string
  mr_Messages :: "Message list"
  mr_System :: string
  mr_MaxTokens :: int
  mr_Temperature :: "real option"
  mr_TopP :: "real option"
  mr_Stream :: bool
  mr_Tools :: "Tool list"
  mr_StopSequences :: "string list"

record Usage =
  InputTokens :: int
  OutputTokens :: int

record MessagesResponse =
  resp_ID :: string
  resp_Type :: string
  resp_Role :: string
  resp_Content :: "ContentBlock list"
  resp_Model :: string
  resp_StopReason :: string
  resp_StopSequence :: "string option"
  resp_Usage :: Usage

record Delta =
  d_Type :: string
  d_Text :: string
  d_Thinking :: string
  d_PartialJSON :: string

record SSEContentBlockStart =
  cbs_Index :: int
  cbs_ContentBlock :: ContentBlock

record SSEContentBlockDelta =
  cbd_Index :: int
  cbd_Delta :: Delta

record SSEMessageDelta =
  md_StopReason :: string
  md_Usage :: "Usage option"

record SSEError =
  se_Type :: string
  se_Message :: string

text \<open>
  The value of an \<open>any\<close> variable that holds a tool schema: the nil interface, a JSON
  schema value, or a \<open>*genai.Schema\<close> pointer (itself possibly nil) boxed in the
  interface.
\<close>

datatype 'j schema_any = NilInterface | JsonSchemaValue 'j | SchemaPointer "'j option"

text \<open>
  Package \<open>encoding/json\<close> is a parameter of the model: one field per use of
  \<open>json.Marshal\<close> and \<open>json.Unmarshal\<close> in the adapter, \<open>None\<close> standing for a
  returned error.
\<close>

record 'j encoding_json =
  Marshal_string :: "string \<Rightarrow> string option"
  Marshal_map :: "(string \<rightharpoonup> 'j) \<Rightarrow> string option"
  Marshal_schema :: "'j schema_any \<Rightarrow> string option"
  Unmarshal_map :: "string \<Rightarrow> (string \<rightharpoonup> 'j) option"
  Unmarshal_MessagesResponse :: "string \<Rightarrow> MessagesResponse option"
  Unmarshal_SSEMessageStart :: "string \<Rightarrow> MessagesResponse option"
  Unmarshal_SSEContentBlockStart :: "string \<Rightarrow> SSEContentBlockStart option"
  Unmarshal_SSEContentBlockDelta :: "string \<Rightarrow> SSEContentBlockDelta option"
  Unmarshal_SSEMessageDelta :: "string \<Rightarrow> SSEMessageDelta option"
  Unmarshal_SSEError :: "string \<Rightarrow> SSEError option"

text \<open>Errors are values; \<open>goerr\<close> is what a body reader or scanner can fail with.\<close>

datatype goerr = ContextCanceled | ReadFailure string

datatype error =
    MarshalFunctionCallArgs
  | MarshalFunctionResponse
  | ParametersIsNil string
  | MarshalToolSchema
  | RequestFailed string
  | ReadResponse goerr
  | HTTPStatus int string
  | UnmarshalResponse
  | SSEErrorRaw string
  | AnthropicAPIError string string
  | SSEReadError goerr
  | MarshalRequest
  | ConvertFailed string
  | DecodeResponse


section \<open>Request conversion (the Anthropic converter)\<close>

definition toToolResultContent ::
  "'j encoding_json \<Rightarrow> string + (string \<rightharpoonup> 'j) \<Rightarrow> string option" where
  "toToolResultContent js resp =
     (case resp of
        Inl s \<Rightarrow> Marshal_string js s
      | Inr m \<Rightarrow>
          (case Marshal_map js m of
             None \<Rightarrow> None
           | Some b \<Rightarrow> Marshal_string js b))"

definition extractTextFromContent :: "'j Content option \<Rightarrow> string" where
  "extractTextFromContent content =
     (case content of
        None \<Rightarrow> []
      | Some c \<Rightarrow>
          Join (map p_Text (filter (\<lambda>part. p_Text part \<noteq> [] \<and> \<not> p_Thought part) (c_Parts c)))
            [CHR 0x0A])"

definition textBlock :: "string \<Rightarrow> ContentBlock" where
  "textBlock txt =
     \<lparr>cb_Type = ''text'', cb_Text = txt, cb_Thinking = [], cb_ID = [], cb_Name = [],
      cb_Input = [], cb_ToolUseID = [], cb_RawContent = [], cb_IsError = False\<rparr>"

definition toolUseBlock :: "string \<Rightarrow> string \<Rightarrow> string \<Rightarrow> ContentBlock" where
  "toolUseBlock ident name inputJSON =
     \<lparr>cb_Type = ''tool_use'', cb_Text = [], cb_Thinking = [], cb_ID = ident, cb_Name = name,
      cb_Input = inputJSON, cb_ToolUseID = [], cb_RawContent = [], cb_IsError = False\<rparr>"

definition toolResultBlock :: "string \<Rightarrow> string \<Rightarrow> ContentBlock" where
  "toolResultBlock ident contentJSON =
     \<lparr>cb_Type = ''tool_result'', cb_Text = [], cb_Thinking = [], cb_ID = [], cb_Name = [],
      cb_Input = [], cb_ToolUseID = ident, cb_RawContent = contentJSON, cb_IsError = False\<rparr>"

text \<open>
  The body of the loop over \<open>content.Parts\<close> in \<open>toAnthropicMessages\<close>: the blocks
  collected so far go in, the blocks after this part come out, or the error returned.
\<close>

definition convertPart ::
  "'j encoding_json \<Rightarrow> 'j Part \<Rightarrow> ContentBlock list \<Rightarrow> error + ContentBlock list" where
  "convertPart js part blocks =
     (if p_Thought part then Inr blocks
      else
        let blocks1 = (if p_Text part \<noteq> [] then blocks @ [textBlock (p_Text part)] else blocks)
        in
          case (case p_FunctionCall part of
                  None \<Rightarrow> Inr blocks1
                | Some fc \<Rightarrow>
                    (case Marshal_map js (fc_Args fc) of
                       None \<Rightarrow> Inl MarshalFunctionCallArgs
                     | Some inputJSON \<Rightarrow>
                         Inr (blocks1 @ [toolUseBlock (fc_ID fc) (fc_Name fc) inputJSON]))) of
            Inl e \<Rightarrow> Inl e
          | Inr blocks2 \<Rightarrow>
              (case p_FunctionResponse part of
                 None \<Rightarrow> Inr blocks2
               | Some fr \<Rightarrow>
                   (case toToolResultContent js (Inr (fr_Response fr)) of
                      None \<Rightarrow> Inl MarshalFunctionResponse
                    | Some contentJSON \<Rightarrow>
                        Inr (blocks2 @ [toolResultBlock (fr_ID fr) contentJSON]))))"

fun convertParts ::
  "'j encoding_json \<Rightarrow> 'j Part list \<Rightarrow> ContentBlock list \<Rightarrow> error + ContentBlock list" where
  "convertParts js [] blocks = Inr blocks"
| "convertParts js (part # rest) blocks =
     (case convertPart js part blocks of
        Inl e \<Rightarrow> Inl e
      | Inr blocks' \<Rightarrow> convertParts js rest blocks')"

text \<open>The loop over \<open>contents\<close>, with \<open>msgs\<close> the slice built so far.\<close>

fun toAnthropicMessages_loop ::
  "'j encoding_json \<Rightarrow> 'j Content option list \<Rightarrow> Message list \<Rightarrow> error + Message list" where
  "toAnthropicMessages_loop js [] msgs = Inr msgs"
| "toAnthropicMessages_loop js (None # rest) msgs = toAnthropicMessages_loop js rest msgs"
| "toAnthropicMessages_loop js (Some content # rest) msgs =
     (let role = (if c_Role content = ''model'' then ''assistant'' else ''user'') in
        case convertParts js (c_Parts content) [] of
          Inl e \<Rightarrow> Inl e
        | Inr blocks \<Rightarrow>
            if blocks = [] then toAnthropicMessages_loop js rest msgs
            else if msgs \<noteq> [] \<and> m_Role (last msgs) = role then
              toAnthropicMessages_loop js rest
                (butlast msgs @ [(last msgs)\<lparr>m_Content := m_Content (last msgs) @ blocks\<rparr>])
            else
              toAnthropicMessages_loop js rest (msgs @ [\<lparr>m_Role = role, m_Content = blocks\<rparr>]))"

definition toAnthropicMessages ::
  "'j encoding_json \<Rightarrow> 'j Content option list \<Rightarrow> error + Message list" where
  "toAnthropicMessages js contents = toAnthropicMessages_loop js contents []"

definition convertDeclaration :: "'j encoding_json \<Rightarrow> 'j FunctionDeclaration \<Rightarrow> error + Tool" where
  "convertDeclaration js fd =
     (let schema0 = (case fd_ParametersJsonSchema fd of
                       None \<Rightarrow> NilInterface
                     | Some j \<Rightarrow> JsonSchemaValue j);
          schema = (if schema0 = NilInterface then SchemaPointer (fd_Parameters fd) else schema0)
      in
        if schema = NilInterface then Inl (ParametersIsNil (fd_Name fd))
        else
          case Marshal_schema js schema of
            None \<Rightarrow> Inl MarshalToolSchema
          | Some schemaJSON \<Rightarrow>
              Inr \<lparr>t_Name = fd_Name fd, t_Description = fd_Description fd,
                   t_InputSchema = schemaJSON\<rparr>)"

fun convertDeclarations ::
  "'j encoding_json \<Rightarrow> 'j FunctionDeclaration list \<Rightarrow> Tool list \<Rightarrow> error + Tool list" where
  "convertDeclarations js [] tools = Inr tools"
| "convertDeclarations js (fd # rest) tools =
     (case convertDeclaration js fd of
        Inl e \<Rightarrow> Inl e
      | Inr t \<Rightarrow> convertDeclarations js rest (tools @ [t]))"

fun convertTools_loop ::
  "'j encoding_json \<Rightarrow> 'j GenaiTool option list \<Rightarrow> Tool list \<Rightarrow> error + Tool list" where
  "convertTools_loop js [] tools = Inr tools"
| "convertTools_loop js (None # rest) tools = convertTools_loop js rest tools"
| "convertTools_loop js (Some gt # rest) tools =
     (case convertDeclarations js (gt_FunctionDeclarations gt) tools of
        Inl e \<Rightarrow> Inl e
      | Inr tools' \<Rightarrow> convertTools_loop js rest tools')"

definition convertTools :: "'j encoding_json \<Rightarrow> 'j GenaiTool option list \<Rightarrow> error + Tool list" where
  "convertTools js genaiTools = convertTools_loop js genaiTools []"

text \<open>
  The last block of \<open>toAnthropicRequest\<close> (\<open>if req.Config != nil\<close>): the generation
  parameters. \<open>int(x)\<close> of an \<open>int32\<close> is its signed value.
\<close>

definition applyConfig :: "'j GenerateContentConfig \<Rightarrow> MessagesRequest \<Rightarrow> MessagesRequest" where
  "applyConfig cfg ar =
     (let ar1 = (case cfg_Temperature cfg of
                   None \<Rightarrow> ar
                 | Some t \<Rightarrow> ar\<lparr>mr_Temperature := Some t\<rparr>);
          ar2 = (if 0 < sint (cfg_MaxOutputTokens cfg)
                 then ar1\<lparr>mr_MaxTokens := sint (cfg_MaxOutputTokens cfg)\<rparr> else ar1);
          ar3 = (case cfg_TopP cfg of
                   None \<Rightarrow> ar2
                 | Some p \<Rightarrow> ar2\<lparr>mr_TopP := Some p\<rparr>)
      in if cfg_StopSequences cfg \<noteq> [] then ar3\<lparr>mr_StopSequences := cfg_StopSequences cfg\<rparr>
         else ar3)"

definition toAnthropicRequest ::
  "'j encoding_json \<Rightarrow> 'j LLMRequest \<Rightarrow> string \<Rightarrow> error + MessagesRequest" where
  "toAnthropicRequest js req modelName =
     (let ar0 = \<lparr>mr_Model = modelName, mr_Messages = [], mr_System = [], mr_MaxTokens = 4096,
                 mr_Temperature = None, mr_TopP = None, mr_Stream = False, mr_Tools = [],
                 mr_StopSequences = []\<rparr>;
          ar1 = (case req_Config req of
                   None \<Rightarrow> ar0
                 | Some cfg \<Rightarrow>
                     (case cfg_SystemInstruction cfg of
                        None \<Rightarrow> ar0
                      | Some si \<Rightarrow> ar0\<lparr>mr_System := extractTextFromContent (Some si)\<rparr>))
      in
        case toAnthropicMessages js (req_Contents req) of
          Inl e \<Rightarrow> Inl e
        | Inr msgs \<Rightarrow>
            (let ar2 = ar1\<lparr>mr_Messages := msgs\<rparr> in
               case (case req_Config req of
                       None \<Rightarrow> Inr ar2
                     | Some cfg \<Rightarrow>
                         if cfg_Tools cfg \<noteq> [] then
                           (case convertTools js (cfg_Tools cfg) of
                              Inl e \<Rightarrow> Inl e
                            | Inr tools \<Rightarrow> Inr (ar2\<lparr>mr_Tools := tools\<rparr>))
                         else Inr ar2) of
                 Inl e \<Rightarrow> Inl e
               | Inr ar3 \<Rightarrow>
                   (case req_Config req of
                      None \<Rightarrow> Inr ar3
                    | Some cfg \<Rightarrow> Inr (applyConfig cfg ar3))))"


section \<open>Response conversion and the SSE stream (model.go)\<close>

definition convertUsage :: "Usage option \<Rightarrow> UsageMetadata option" where
  "convertUsage u =
     (case u of
        None \<Rightarrow> None
      | Some v \<Rightarrow>
          Some \<lparr>PromptTokenCount = word_of_int (InputTokens v),
                CandidatesTokenCount = word_of_int (OutputTokens v),
                TotalTokenCount = word_of_int (InputTokens v + OutputTokens v)\<rparr>)"

definition convertStopReason :: "string \<Rightarrow> FinishReason" where
  "convertStopReason reason =
     (if reason = ''end_turn'' \<or> reason = ''stop_sequence'' then FinishReasonStop
      else if reason = ''max_tokens'' then FinishReasonMaxTokens
      else if reason = ''tool_use'' then FinishReasonStop
      else FinishReasonUnspecified)"

definition textPart :: "string \<Rightarrow> 'j Part" where
  "textPart txt =
     \<lparr>p_Text = txt, p_Thought = False, p_FunctionCall = None, p_FunctionResponse = None\<rparr>"

definition thoughtPart :: "string \<Rightarrow> 'j Part" where
  "thoughtPart txt =
     \<lparr>p_Text = txt, p_Thought = True, p_FunctionCall = None, p_FunctionResponse = None\<rparr>"

definition functionCallPart :: "string \<Rightarrow> string \<Rightarrow> (string \<rightharpoonup> 'j) \<Rightarrow> 'j Part" where
  "functionCallPart ident name args =
     \<lparr>p_Text = [], p_Thought = False,
      p_FunctionCall = Some \<lparr>fc_ID = ident, fc_Name = name, fc_Args = args\<rparr>,
      p_FunctionResponse = None\<rparr>"

text \<open>
  \<open>args := make(map[string]any)\<close>, then \<open>json.Unmarshal\<close> into it when the raw text is
  not empty; a failed \<open>Unmarshal\<close> is logged and leaves the empty map.
\<close>

definition toolUseArgs :: "'j encoding_json \<Rightarrow> string \<Rightarrow> (string \<rightharpoonup> 'j)" where
  "toolUseArgs js raw =
     (if raw \<noteq> [] then
        (case Unmarshal_map js raw of
           None \<Rightarrow> Map.empty
         | Some m \<Rightarrow> m)
      else Map.empty)"

definition responseBlockParts :: "'j encoding_json \<Rightarrow> ContentBlock \<Rightarrow> 'j Part list" where
  "responseBlockParts js block =
     (if cb_Type block = ''text'' then
        (if cb_Text block \<noteq> [] then [textPart (cb_Text block)] else [])
      else if cb_Type block = ''thinking'' then
        (if cb_Thinking block \<noteq> [] then [thoughtPart (cb_Thinking block)] else [])
      else if cb_Type block = ''tool_use'' then
        [functionCallPart (cb_ID block) (cb_Name block) (toolUseArgs js (cb_Input block))]
      else [])"

definition convertAnthropicResponse :: "'j encoding_json \<Rightarrow> MessagesResponse \<Rightarrow> 'j LLMResponse" where
  "convertAnthropicResponse js resp =
     \<lparr>r_Content =
        Some \<lparr>c_Role = ''model'',
              c_Parts = foldl (\<lambda>parts block. parts @ responseBlockParts js block) []
                          (resp_Content resp)\<rparr>,
      r_UsageMetadata = convertUsage (Some (resp_Usage resp)),
      r_FinishReason = convertStopReason (resp_StopReason resp),
      r_Partial = False, r_TurnComplete = True\<rparr>"

record blockState =
  bs_blockType :: string
  bs_toolID :: string
  bs_toolName :: string
  bs_text :: string
  bs_thinking :: string
  bs_toolArgs :: string

text \<open>
  What the iterator hands to \<open>yield\<close>: a response or an error. \<open>wants n\<close> is what the
  consumer's \<open>yield\<close> returns on its call number \<open>n\<close> (counted from 0): \<open>False\<close>
  when the consumer stops ranging over the sequence.
\<close>

type_synonym 'j yielded = "error + 'j LLMResponse"

record 'j sse_state =
  st_blocks :: "(int \<times> blockState) list"
  st_stopReason :: string
  st_usage :: "Usage option"
  st_yielded :: "'j yielded list"

datatype handler_result = ReturnNil | ReturnStopIteration | ReturnError error

definition yield :: "(nat \<Rightarrow> bool) \<Rightarrow> 'j yielded \<Rightarrow> 'j yielded list \<Rightarrow> 'j yielded list \<times> bool" where
  "yield wants item out = (out @ [item], wants (length out))"

definition partialResponse :: "'j Part \<Rightarrow> 'j LLMResponse" where
  "partialResponse part =
     \<lparr>r_Content = Some \<lparr>c_Role = ''model'', c_Parts = [part]\<rparr>,
      r_UsageMetadata = None, r_FinishReason = FinishReasonUnset,
      r_Partial = True, r_TurnComplete = False\<rparr>"

definition handleDelta ::
  "'j encoding_json \<Rightarrow> (nat \<Rightarrow> bool) \<Rightarrow> string \<Rightarrow> 'j sse_state \<Rightarrow> 'j sse_state \<times> handler_result" where
  "handleDelta js wants data st =
     (case Unmarshal_SSEContentBlockDelta js data of
        None \<Rightarrow> (st, ReturnNil)
      | Some ev \<Rightarrow>
          (case map_of (st_blocks st) (cbd_Index ev) of
             None \<Rightarrow> (st, ReturnNil)
           | Some bs \<Rightarrow>
               (let delta = cbd_Delta ev in
                  if d_Type delta = ''text_delta'' then
                    (let st1 = st\<lparr>st_blocks :=
                                   map_put (cbd_Index ev) (bs\<lparr>bs_text := bs_text bs @ d_Text delta\<rparr>)
                                     (st_blocks st)\<rparr>;
                         (out, ok) =
                           yield wants (Inr (partialResponse (textPart (d_Text delta))))
                             (st_yielded st1)
                     in (st1\<lparr>st_yielded := out\<rparr>, if ok then ReturnNil else ReturnStopIteration))
                  else if d_Type delta = ''thinking_delta'' then
                    (let st1 = st\<lparr>st_blocks :=
                                   map_put (cbd_Index ev)
                                     (bs\<lparr>bs_thinking := bs_thinking bs @ d_Thinking delta\<rparr>)
                                     (st_blocks st)\<rparr>;
                         (out, ok) =
                           yield wants (Inr (partialResponse (thoughtPart (d_Thinking delta))))
                             (st_yielded st1)
                     in (st1\<lparr>st_yielded := out\<rparr>, if ok then ReturnNil else ReturnStopIteration))
                  else if d_Type delta = ''input_json_delta'' then
                    (st\<lparr>st_blocks :=
                          map_put (cbd_Index ev)
                            (bs\<lparr>bs_toolArgs := bs_toolArgs bs @ d_PartialJSON delta\<rparr>)
                            (st_blocks st)\<rparr>,
                     ReturnNil)
                  else (st, ReturnNil))))"

definition handleSSEEvent ::
  "'j encoding_json \<Rightarrow> (nat \<Rightarrow> bool) \<Rightarrow> string \<Rightarrow> string \<Rightarrow> 'j sse_state \<Rightarrow>
     'j sse_state \<times> handler_result" where
  "handleSSEEvent js wants eventType data st =
     (if eventType = ''message_start'' then
        (case Unmarshal_SSEMessageStart js data of
           None \<Rightarrow> (st, ReturnNil)
         | Some msg \<Rightarrow> (st\<lparr>st_usage := Some (resp_Usage msg)\<rparr>, ReturnNil))
      else if eventType = ''content_block_start'' then
        (case Unmarshal_SSEContentBlockStart js data of
           None \<Rightarrow> (st, ReturnNil)
         | Some ev \<Rightarrow>
             (let cb = cbs_ContentBlock ev;
                  bs = \<lparr>bs_blockType = cb_Type cb,
                        bs_toolID = (if cb_Type cb = ''tool_use'' then cb_ID cb else []),
                        bs_toolName = (if cb_Type cb = ''tool_use'' then cb_Name cb else []),
                        bs_text = [], bs_thinking = [], bs_toolArgs = []\<rparr>
              in (st\<lparr>st_blocks := map_put (cbs_Index ev) bs (st_blocks st)\<rparr>, ReturnNil)))
      else if eventType = ''content_block_delta'' then handleDelta js wants data st
      else if eventType = ''content_block_stop'' then (st, ReturnNil)
      else if eventType = ''message_delta'' then
        (case Unmarshal_SSEMessageDelta js data of
           None \<Rightarrow> (st, ReturnNil)
         | Some ev \<Rightarrow>
             (let st1 = st\<lparr>st_stopReason := md_StopReason ev\<rparr> in
                (case md_Usage ev of
                   None \<Rightarrow> (st1, ReturnNil)
                 | Some u \<Rightarrow> (st1\<lparr>st_usage := Some u\<rparr>, ReturnNil))))
      else if eventType = ''message_stop'' then (st, ReturnNil)
      else if eventType = ''error'' then
        (case Unmarshal_SSEError js data of
           None \<Rightarrow> (st, ReturnError (SSEErrorRaw data))
         | Some ev \<Rightarrow> (st, ReturnError (AnthropicAPIError (se_Type ev) (se_Message ev))))
      else (st, ReturnNil))"

text \<open>
  The \<open>for scanner.Scan()\<close> loop of \<open>processStream\<close> over the lines the scanner
  delivers. The flag of the result is \<open>False\<close> when the function returned from inside
  the loop, \<open>True\<close> when the loop ended because the scanner stopped.
\<close>

fun scanLoop ::
  "'j encoding_json \<Rightarrow> (nat \<Rightarrow> bool) \<Rightarrow> string list \<Rightarrow> string \<Rightarrow> 'j sse_state \<Rightarrow>
     'j sse_state \<times> bool" where
  "scanLoop js wants [] eventType st = (st, True)"
| "scanLoop js wants (line # rest) eventType st =
     (if snd (CutPrefix line ''event: '') then
        scanLoop js wants rest (fst (CutPrefix line ''event: '')) st
      else if \<not> snd (CutPrefix line ''data: '') then scanLoop js wants rest eventType st
      else
        (case handleSSEEvent js wants eventType (fst (CutPrefix line ''data: '')) st of
           (st', ReturnNil) \<Rightarrow> scanLoop js wants rest eventType st'
         | (st', ReturnStopIteration) \<Rightarrow> (st', False)
         | (st', ReturnError e) \<Rightarrow>
             (st'\<lparr>st_yielded := fst (yield wants (Inl e) (st_yielded st'))\<rparr>, False)))"

text \<open>
  A response body as \<open>bufio.Scanner\<close> delivers it: the lines scanned, then the error
  \<open>scanner.Err()\<close> reports (\<open>None\<close> at a clean end of input).
\<close>

record sse_body =
  sse_lines :: "string list"
  sse_err :: "goerr option"

definition blockParts :: "'j encoding_json \<Rightarrow> blockState \<Rightarrow> 'j Part list" where
  "blockParts js bs =
     (if bs_blockType bs = ''thinking'' then
        (if bs_thinking bs \<noteq> [] then [thoughtPart (bs_thinking bs)] else [])
      else if bs_blockType bs = ''text'' then
        (if bs_text bs \<noteq> [] then [textPart (bs_text bs)] else [])
      else if bs_blockType bs = ''tool_use'' then
        [functionCallPart (bs_toolID bs) (bs_toolName bs) (toolUseArgs js (bs_toolArgs bs))]
      else [])"

text \<open>
  \<open>emitFinalResponse\<close>: the keys of the map in the order \<open>range\<close> gives them, sorted by
  \<open>sort.Ints\<close>, then one pass over the sorted indices. Every index comes from the map,
  so the lookup always finds its block.
\<close>

definition aggregateParts :: "'j encoding_json \<Rightarrow> (int \<times> blockState) list \<Rightarrow> 'j Part list" where
  "aggregateParts js blocks =
     foldl (\<lambda>parts idx. case map_of blocks idx of
                           None \<Rightarrow> parts
                         | Some bs \<Rightarrow> parts @ blockParts js bs)
       [] (sort (map fst blocks))"

definition emitFinalResponse ::
  "'j encoding_json \<Rightarrow> (nat \<Rightarrow> bool) \<Rightarrow> 'j sse_state \<Rightarrow> 'j sse_state" where
  "emitFinalResponse js wants st =
     (let finalResp =
            \<lparr>r_Content = Some \<lparr>c_Role = ''model'', c_Parts = aggregateParts js (st_blocks st)\<rparr>,
             r_UsageMetadata = convertUsage (st_usage st),
             r_FinishReason = convertStopReason (st_stopReason st),
             r_Partial = False, r_TurnComplete = True\<rparr>
      in st\<lparr>st_yielded := fst (yield wants (Inr finalResp) (st_yielded st))\<rparr>)"

definition processStream ::
  "'j encoding_json \<Rightarrow> (nat \<Rightarrow> bool) \<Rightarrow> sse_body \<Rightarrow> 'j yielded list" where
  "processStream js wants body =
     (let st0 = \<lparr>st_blocks = [], st_stopReason = [], st_usage = None, st_yielded = []\<rparr>;
          (st, scanned) = scanLoop js wants (sse_lines body) [] st0
      in
        if \<not> scanned then st_yielded st
        else
          case sse_err body of
            Some err \<Rightarrow>
              (if err \<noteq> ContextCanceled
               then fst (yield wants (Inl (SSEReadError err)) (st_yielded st))
               else st_yielded st)
          | None \<Rightarrow> st_yielded (emitFinalResponse js wants st))"

text \<open>
  An HTTP response: the status, the body as \<open>io.ReadAll\<close> observes it (the bytes read
  and the error the read ends with, if any) and as the line scanner observes it.
  \<open>doRequest\<close>, the network, is a parameter of the two generators.
\<close>

record http_response =
  hr_StatusCode :: int
  hr_data :: string
  hr_read_err :: "goerr option"
  hr_sse :: sse_body

definition ReadAll_limited :: "nat \<Rightarrow> http_response \<Rightarrow> string \<times> goerr option" where
  "ReadAll_limited n resp =
     (if n \<le> length (hr_data resp) then (take n (hr_data resp), None)
      else (hr_data resp, hr_read_err resp))"

definition generate ::
  "'j encoding_json \<Rightarrow> (MessagesRequest \<Rightarrow> error + http_response) \<Rightarrow> 'j LLMRequest \<Rightarrow> string \<Rightarrow>
     'j yielded list" where
  "generate js doRequest req modelName =
     (case toAnthropicRequest js req modelName of
        Inl e \<Rightarrow> [Inl e]
      | Inr ar \<Rightarrow>
          (case doRequest (ar\<lparr>mr_Stream := False\<rparr>) of
             Inl e \<Rightarrow> [Inl e]
           | Inr resp \<Rightarrow>
               (case ReadAll_limited (10 * 1024 * 1024) resp of
                  (body, Some err) \<Rightarrow> [Inl (ReadResponse err)]
                | (body, None) \<Rightarrow>
                    if hr_StatusCode resp \<noteq> 200 then [Inl (HTTPStatus (hr_StatusCode resp) body)]
                    else
                      (case Unmarshal_MessagesResponse js body of
                         None \<Rightarrow> [Inl UnmarshalResponse]
                       | Some msgResp \<Rightarrow> [Inr (convertAnthropicResponse js msgResp)]))))"

definition generateStream ::
  "'j encoding_json \<Rightarrow> (MessagesRequest \<Rightarrow> error + http_response) \<Rightarrow> (nat \<Rightarrow> bool) \<Rightarrow>
     'j LLMRequest \<Rightarrow> string \<Rightarrow> 'j yielded list" where
  "generateStream js doRequest wants req modelName =
     (case toAnthropicRequest js req modelName of
        Inl e \<Rightarrow> [Inl e]
      | Inr ar \<Rightarrow>
          (case doRequest (ar\<lparr>mr_Stream := True\<rparr>) of
             Inl e \<Rightarrow> [Inl e]
           | Inr resp \<Rightarrow>
               if hr_StatusCode resp \<noteq> 200
               then [Inl (HTTPStatus (hr_StatusCode resp) (fst (ReadAll_limited 2048 resp)))]
               else processStream js wants (hr_sse resp)))"

definition GenerateContent ::
  "'j encoding_json \<Rightarrow> (MessagesRequest \<Rightarrow> error + http_response) \<Rightarrow> (nat \<Rightarrow> bool) \<Rightarrow>
     'j LLMRequest \<Rightarrow> string \<Rightarrow> bool \<Rightarrow> 'j yielded list" where
  "GenerateContent js doRequest wants req modelName stream =
     (if stream then generateStream js doRequest wants req modelName
      else generate js doRequest req modelName)"

text \<open>The three kinds of element of a yielded sequence.\<close>

definition isPartial :: "'j yielded \<Rightarrow> bool" where
  "isPartial item = (case item of Inl e \<Rightarrow> False | Inr r \<Rightarrow> r_Partial r \<and> \<not> r_TurnComplete r)"

definition isTerminal :: "'j yielded \<Rightarrow> bool" where
  "isTerminal item = (case item of Inl e \<Rightarrow> False | Inr r \<Rightarrow> \<not> r_Partial r \<and> r_TurnComplete r)"

definition isError :: "'j yielded \<Rightarrow> bool" where
  "isError item = (case item of Inl e \<Rightarrow> True | Inr r \<Rightarrow> False)"


section \<open>The OpenAI Responses stream\<close>

text \<open>
  The wire types of the Responses events, the think-tag parser, \<open>parseVendorToolCalls\<close>
  and \<open>parseJSONArgs\<close> are declared in files of the package that are not among the
  sources; the stream processor is modelled over them as parameters. The records below
  hold the fields the processor reads.
\<close>

record ResponsesItem =
  it_Type :: string
  it_ID :: string
  it_CallID :: string
  it_Name :: string
  it_Arguments :: string

record ResponsesUsage =
  ru_InputTokens :: int
  ru_OutputTokens :: int
  ru_TotalTokens :: int

record thinkSegment =
  seg_Text :: string
  seg_Thought :: bool

record 'j vendorCall =
  vc_Name :: string
  vc_Args :: "string \<rightharpoonup> 'j"

record responsesToolCallBuilder =
  b_itemID :: string
  b_callID :: string
  b_name :: string
  b_args :: string

record ('j, 'p) responses_lib =
  Unmarshal_TextDelta :: "string \<Rightarrow> string option"
  Unmarshal_FuncCallArgsDelta :: "string \<Rightarrow> (string \<times> string) option"
  Unmarshal_OutputItemAdded :: "string \<Rightarrow> ResponsesItem option"
  Unmarshal_OutputItemDone :: "string \<Rightarrow> ResponsesItem option"
  Unmarshal_Completed :: "string \<Rightarrow> ResponsesUsage option option"
  newThinkTagStreamParser :: 'p
  Feed :: "'p \<Rightarrow> string \<Rightarrow> 'p \<times> thinkSegment list"
  Flush :: "'p \<Rightarrow> thinkSegment list"
  parseVendorToolCalls :: "string \<Rightarrow> 'j vendorCall list \<times> string"
  parseJSONArgs :: "string \<Rightarrow> (string \<rightharpoonup> 'j)"

record ('j, 'p) responses_state =
  rs_textContent :: string
  rs_thoughtContent :: string
  rs_toolCallsMap :: "(string \<times> responsesToolCallBuilder) list"
  rs_toolCallOrder :: "string list"
  rs_usageMetadata :: "UsageMetadata option"
  rs_thinkParser :: 'p
  rs_yielded :: "'j yielded list"

fun emitTextSegments ::
  "(nat \<Rightarrow> bool) \<Rightarrow> thinkSegment list \<Rightarrow> ('j, 'p) responses_state \<Rightarrow>
     ('j, 'p) responses_state \<times> bool" where
  "emitTextSegments wants [] st = (st, True)"
| "emitTextSegments wants (seg # rest) st =
     (if seg_Text seg = [] then emitTextSegments wants rest st
      else
        let st1 = (if seg_Thought seg
                   then st\<lparr>rs_thoughtContent := rs_thoughtContent st @ seg_Text seg\<rparr>
                   else st\<lparr>rs_textContent := rs_textContent st @ seg_Text seg\<rparr>);
            part = \<lparr>p_Text = seg_Text seg, p_Thought = seg_Thought seg,
                    p_FunctionCall = None, p_FunctionResponse = None\<rparr>;
            st2 = st1\<lparr>rs_yielded := fst (yield wants (Inr (partialResponse part)) (rs_yielded st1))\<rparr>
        in
          if \<not> snd (yield wants (Inr (partialResponse part)) (rs_yielded st1)) then (st2, False)
          else emitTextSegments wants rest st2)"

definition handleTextDelta ::
  "('j, 'p) responses_lib \<Rightarrow> (nat \<Rightarrow> bool) \<Rightarrow> string \<Rightarrow> ('j, 'p) responses_state \<Rightarrow>
     ('j, 'p) responses_state \<times> bool" where
  "handleTextDelta lib wants data st =
     (case Unmarshal_TextDelta lib data of
        None \<Rightarrow> (st, True)
      | Some delta \<Rightarrow>
          (let (parser, segments) = Feed lib (rs_thinkParser st) delta
           in emitTextSegments wants segments (st\<lparr>rs_thinkParser := parser\<rparr>)))"

definition handleFuncArgsDelta ::
  "('j, 'p) responses_lib \<Rightarrow> string \<Rightarrow> ('j, 'p) responses_state \<Rightarrow> ('j, 'p) responses_state" where
  "handleFuncArgsDelta lib data st =
     (case Unmarshal_FuncCallArgsDelta lib data of
        None \<Rightarrow> st
      | Some (itemID, delta) \<Rightarrow>
          (case map_of (rs_toolCallsMap st) itemID of
             None \<Rightarrow> st
           | Some builder \<Rightarrow>
               st\<lparr>rs_toolCallsMap :=
                    map_put itemID (builder\<lparr>b_args := b_args builder @ delta\<rparr>)
                      (rs_toolCallsMap st)\<rparr>))"

definition handleOutputItemAdded ::
  "('j, 'p) responses_lib \<Rightarrow> string \<Rightarrow> ('j, 'p) responses_state \<Rightarrow> ('j, 'p) responses_state" where
  "handleOutputItemAdded lib data st =
     (case Unmarshal_OutputItemAdded lib data of
        None \<Rightarrow> st
      | Some item \<Rightarrow>
          if it_Type item = ''function_call'' then
            st\<lparr>rs_toolCallsMap :=
                 map_put (it_ID item)
                   \<lparr>b_itemID = it_ID item, b_callID = it_CallID item, b_name = it_Name item,
                    b_args = []\<rparr>
                   (rs_toolCallsMap st),
               rs_toolCallOrder := rs_toolCallOrder st @ [it_ID item]\<rparr>
          else st)"

definition handleOutputItemDone ::
  "('j, 'p) responses_lib \<Rightarrow> string \<Rightarrow> ('j, 'p) responses_state \<Rightarrow> ('j, 'p) responses_state" where
  "handleOutputItemDone lib data st =
     (case Unmarshal_OutputItemDone lib data of
        None \<Rightarrow> st
      | Some item \<Rightarrow>
          if it_Type item = ''function_call'' then
            (case map_of (rs_toolCallsMap st) (it_ID item) of
               Some builder \<Rightarrow>
                 (let b1 = builder\<lparr>b_callID := it_CallID item, b_name := it_Name item\<rparr>;
                      b2 = (if it_Arguments item \<noteq> [] then b1\<lparr>b_args := it_Arguments item\<rparr>
                            else b1)
                  in st\<lparr>rs_toolCallsMap := map_put (it_ID item) b2 (rs_toolCallsMap st)\<rparr>)
             | None \<Rightarrow>
                 st\<lparr>rs_toolCallsMap :=
                      map_put (it_ID item)
                        \<lparr>b_itemID = it_ID item, b_callID = it_CallID item, b_name = it_Name item,
                         b_args = it_Arguments item\<rparr>
                        (rs_toolCallsMap st),
                    rs_toolCallOrder := rs_toolCallOrder st @ [it_ID item]\<rparr>)
          else st)"

definition handleCompleted ::
  "('j, 'p) responses_lib \<Rightarrow> string \<Rightarrow> ('j, 'p) responses_state \<Rightarrow> ('j, 'p) responses_state" where
  "handleCompleted lib data st =
     (case Unmarshal_Completed lib data of
        None \<Rightarrow> st
      | Some None \<Rightarrow> st
      | Some (Some u) \<Rightarrow>
          st\<lparr>rs_usageMetadata :=
               Some \<lparr>PromptTokenCount = word_of_int (ru_InputTokens u),
                     CandidatesTokenCount = word_of_int (ru_OutputTokens u),
                     TotalTokenCount = word_of_int (ru_TotalTokens u)\<rparr>\<rparr>)"

text \<open>The scanner loop of \<open>processResponsesStream\<close>; the flag is as in \<open>scanLoop\<close>.\<close>

fun responsesLoop ::
  "('j, 'p) responses_lib \<Rightarrow> (nat \<Rightarrow> bool) \<Rightarrow> string list \<Rightarrow> string \<Rightarrow>
     ('j, 'p) responses_state \<Rightarrow> ('j, 'p) responses_state \<times> bool" where
  "responsesLoop lib wants [] currentEventType st = (st, True)"
| "responsesLoop lib wants (line # rest) currentEventType st =
     (if snd (CutPrefix line ''event: '') then
        responsesLoop lib wants rest (fst (CutPrefix line ''event: '')) st
      else if \<not> snd (CutPrefix line ''data: '') \<or> fst (CutPrefix line ''data: '') = [] then
        responsesLoop lib wants rest currentEventType st
      else
        let data = fst (CutPrefix line ''data: '') in
          if currentEventType = ''response.output_text.delta'' then
            (if \<not> snd (handleTextDelta lib wants data st)
             then (fst (handleTextDelta lib wants data st), False)
             else responsesLoop lib wants rest [] (fst (handleTextDelta lib wants data st)))
          else if currentEventType = ''response.function_call_arguments.delta'' then
            responsesLoop lib wants rest [] (handleFuncArgsDelta lib data st)
          else if currentEventType = ''response.output_item.added'' then
            responsesLoop lib wants rest [] (handleOutputItemAdded lib data st)
          else if currentEventType = ''response.output_item.done'' then
            responsesLoop lib wants rest [] (handleOutputItemDone lib data st)
          else if currentEventType = ''response.completed'' then
            responsesLoop lib wants rest [] (handleCompleted lib data st)
          else responsesLoop lib wants rest [] st)"

text \<open>\<open>fmt.Sprintf("%d", n)\<close> for a loop index.\<close>

fun showNat :: "nat \<Rightarrow> string" where
  "showNat n =
     (if n < 10 then [''0123456789'' ! n]
      else showNat (n div 10) @ [''0123456789'' ! (n mod 10)])"

declare showNat.simps [simp del]

definition vendorCallParts :: "'j vendorCall list \<Rightarrow> 'j Part list" where
  "vendorCallParts vendorCalls =
     map (\<lambda>(i, vc). functionCallPart (''vendor_call_'' @ showNat i) (vc_Name vc) (vc_Args vc))
       (enumerate 0 vendorCalls)"

text \<open>
  The loop \<open>for _, id := range toolCallOrder\<close>: a missing builder (\<open>nil\<close>) is skipped.
\<close>

definition toolCallParts ::
  "('j, 'p) responses_lib \<Rightarrow> (string \<times> responsesToolCallBuilder) list \<Rightarrow> string list \<Rightarrow>
     'j Part list" where
  "toolCallParts lib toolCallsMap toolCallOrder =
     foldl (\<lambda>parts ident. case map_of toolCallsMap ident of
                             None \<Rightarrow> parts
                           | Some builder \<Rightarrow>
                               parts @ [functionCallPart (b_callID builder) (b_name builder)
                                          (parseJSONArgs lib (b_args builder))])
       [] toolCallOrder"

definition responsesFinal :: "('j, 'p) responses_lib \<Rightarrow> ('j, 'p) responses_state \<Rightarrow> 'j LLMResponse" where
  "responsesFinal lib st =
     (let parts0 =
            (if rs_textContent st \<noteq> [] then
               (let (vendorCalls, cleanedText) = parseVendorToolCalls lib (rs_textContent st)
                in (if cleanedText \<noteq> [] then [textPart cleanedText] else [])
                   @ vendorCallParts vendorCalls)
             else []);
          parts1 = parts0 @ toolCallParts lib (rs_toolCallsMap st) (rs_toolCallOrder st);
          parts2 = (if rs_thoughtContent st \<noteq> [] then thoughtPart (rs_thoughtContent st) # parts1
                    else parts1)
      in \<lparr>r_Content = Some \<lparr>c_Role = ''model'', c_Parts = parts2\<rparr>,
          r_UsageMetadata = rs_usageMetadata st,
          r_FinishReason = FinishReasonStop,
          r_Partial = False, r_TurnComplete = True\<rparr>)"

definition processResponsesStream ::
  "('j, 'p) responses_lib \<Rightarrow> (nat \<Rightarrow> bool) \<Rightarrow> sse_body \<Rightarrow> 'j yielded list" where
  "processResponsesStream lib wants body =
     (let st0 = \<lparr>rs_textContent = [], rs_thoughtContent = [], rs_toolCallsMap = [],
                 rs_toolCallOrder = [], rs_usageMetadata = None,
                 rs_thinkParser = newThinkTagStreamParser lib, rs_yielded = []\<rparr>;
          (st, scanned) = responsesLoop lib wants (sse_lines body) [] st0
      in
        if \<not> scanned then rs_yielded st
        else
          case sse_err body of
            Some err \<Rightarrow> fst (yield wants (Inl (SSEReadError err)) (rs_yielded st))
          | None \<Rightarrow>
              (let (st1, ok) = emitTextSegments wants (Flush lib (rs_thinkParser st)) st
               in if \<not> ok then rs_yielded st1
                  else fst (yield wants (Inr (responsesFinal lib st1)) (rs_yielded st1))))"

text \<open>
  The two generators of \<open>ResponsesModel\<close>. The request converter
  \<open>toResponsesRequest\<close>, the response converter \<open>convertResponsesResponse\<close>, the
  marshalling of the request, the network and the decoding of the body are parameters.
\<close>

record ('j, 'q, 'a) responses_env =
  toResponsesRequest :: "'j LLMRequest \<Rightarrow> error + 'q"
  Marshal_request :: "'q \<Rightarrow> bool \<Rightarrow> string option"
  responses_doRequest :: "string \<Rightarrow> bool \<Rightarrow> error + http_response"
  Decode_response :: "http_response \<Rightarrow> 'a option"
  convertResponsesResponse :: "'a \<Rightarrow> error + 'j LLMResponse"

definition responses_generate ::
  "('j, 'q, 'a) responses_env \<Rightarrow> 'j LLMRequest \<Rightarrow> 'j yielded list" where
  "responses_generate env req =
     (case toResponsesRequest env req of
        Inl e \<Rightarrow> [Inl e]
      | Inr apiReq \<Rightarrow>
          (case Marshal_request env apiReq False of
             None \<Rightarrow> [Inl MarshalRequest]
           | Some body \<Rightarrow>
               (case responses_doRequest env body False of
                  Inl e \<Rightarrow> [Inl e]
                | Inr resp \<Rightarrow>
                    if hr_StatusCode resp < 200 \<or> hr_StatusCode resp \<ge> 400
                    then [Inl (HTTPStatus (hr_StatusCode resp) (hr_data resp))]
                    else
                      (case Decode_response env resp of
                         None \<Rightarrow> [Inl DecodeResponse]
                       | Some apiResp \<Rightarrow>
                           (case convertResponsesResponse env apiResp of
                              Inl e \<Rightarrow> [Inl e]
                            | Inr llmResp \<Rightarrow> [Inr llmResp])))))"

definition responses_generateStream ::
  "('j, 'q, 'a) responses_env \<Rightarrow> ('j, 'p) responses_lib \<Rightarrow> (nat \<Rightarrow> bool) \<Rightarrow> 'j LLMRequest \<Rightarrow>
     'j yielded list" where
  "responses_generateStream env lib wants req =
     (case toResponsesRequest env req of
        Inl e \<Rightarrow> [Inl e]
      | Inr apiReq \<Rightarrow>
          (case Marshal_request env apiReq True of
             None \<Rightarrow> [Inl MarshalRequest]
           | Some body \<Rightarrow>
               (case responses_doRequest env body True of
                  Inl e \<Rightarrow> [Inl e]
                | Inr resp \<Rightarrow>
                    if hr_StatusCode resp < 200 \<or> hr_StatusCode resp \<ge> 400
                    then [Inl (HTTPStatus (hr_StatusCode resp) (hr_data resp))]
                    else processResponsesStream lib wants (hr_sse resp))))"


section \<open>The tool invocation layer (package mcp)\<close>

text \<open>
  A tool of the ADK: its name, description and long-running flag, and, when it also
  implements the interface \<open>functionTool\<close>, its declaration (possibly nil) and its
  \<open>Run\<close> method.
\<close>

record 'j functionTool =
  ft_Declaration :: "'j FunctionDeclaration option"
  ft_Run :: "(string \<rightharpoonup> 'j) \<Rightarrow> error + (string \<rightharpoonup> 'j)"

record 'j tool =
  tool_Name :: string
  tool_Description :: string
  tool_IsLongRunning :: bool
  tool_functionTool :: "'j functionTool option"

record 'j prefixedTool =
  pt_inner :: "'j tool"
  pt_prefix :: string

definition pt_Name :: "'j prefixedTool \<Rightarrow> string" where
  "pt_Name p = pt_prefix p @ '':'' @ tool_Name (pt_inner p)"

definition pt_Description :: "'j prefixedTool \<Rightarrow> string" where
  "pt_Description p = tool_Description (pt_inner p)"

definition pt_IsLongRunning :: "'j prefixedTool \<Rightarrow> bool" where
  "pt_IsLongRunning p = tool_IsLongRunning (pt_inner p)"

definition pt_Declaration :: "'j prefixedTool \<Rightarrow> 'j FunctionDeclaration option" where
  "pt_Declaration p =
     (case tool_functionTool (pt_inner p) of
        None \<Rightarrow> None
      | Some inner \<Rightarrow>
          (case ft_Declaration inner of
             None \<Rightarrow> None
           | Some decl \<Rightarrow>
               Some \<lparr>fd_Name = pt_Name p,
                     fd_Description = fd_Description decl,
                     fd_ParametersJsonSchema = fd_ParametersJsonSchema decl,
                     fd_Parameters = None,
                     fd_ResponseJsonSchema = fd_ResponseJsonSchema decl\<rparr>))"

definition pt_Run :: "'j prefixedTool \<Rightarrow> (string \<rightharpoonup> 'j) \<Rightarrow> error + (string \<rightharpoonup> 'j) option" where
  "pt_Run p args =
     (case tool_functionTool (pt_inner p) of
        None \<Rightarrow> Inr None
      | Some inner \<Rightarrow>
          (case ft_Run inner args of
             Inl e \<Rightarrow> Inl e
           | Inr result \<Rightarrow> Inr (Some result)))"

record 'j toolset =
  ts_Name :: string
  ts_Tools :: "error + 'j tool list"

record 'j prefixedToolset =
  pts_inner :: "'j toolset"
  pts_prefix :: string

definition NewPrefixedToolset :: "'j toolset \<Rightarrow> string \<Rightarrow> 'j prefixedToolset" where
  "NewPrefixedToolset inner prefix = \<lparr>pts_inner = inner, pts_prefix = prefix\<rparr>"

definition pts_Tools :: "'j prefixedToolset \<Rightarrow> error + 'j prefixedTool list" where
  "pts_Tools p =
     (case ts_Tools (pts_inner p) of
        Inl e \<Rightarrow> Inl e
      | Inr tools \<Rightarrow> Inr (map (\<lambda>t. \<lparr>pt_inner = t, pt_prefix = pts_prefix p\<rparr>) tools))"

record MCPServerConfig =
  sc_ID :: string
  sc_Name :: string
  sc_Enabled :: bool
  sc_TransportType :: string
  sc_Endpoint :: string
  sc_Command :: string
  sc_Args :: "string list"


text \<open>
  The manager's \<open>configs\<close> map. \<open>mcptoolset.New\<close> on the transport of a configuration
  (parameter \<open>new\<close>) and connecting to a server and listing its tools (parameter
  \<open>listTools\<close>, giving name and description of each tool) are the outside world.
\<close>

definition LoadConfigs :: "MCPServerConfig list \<Rightarrow> (string \<times> MCPServerConfig) list" where
  "LoadConfigs configs =
     foldl (\<lambda>m cfg. if \<not> sc_Enabled cfg then m else map_put (sc_ID cfg) cfg m) [] configs"

definition createToolset ::
  "(MCPServerConfig \<Rightarrow> error + 'j toolset) \<Rightarrow> MCPServerConfig \<Rightarrow> error + 'j prefixedToolset" where
  "createToolset new cfg =
     (case new cfg of
        Inl e \<Rightarrow> Inl e
      | Inr ts \<Rightarrow> Inr (NewPrefixedToolset ts (sc_Name cfg)))"

text \<open>
  \<open>GetToolsetsByIDs\<close> collects the configurations found into a local map
  (\<open>collectConfigs\<close>, the first loop) and ranges over that map; \<open>rangeOrder\<close> is the
  order in which \<open>range\<close> visits its entries.
\<close>

definition collectConfigs ::
  "(string \<times> MCPServerConfig) list \<Rightarrow> string list \<Rightarrow> (string \<times> MCPServerConfig) list" where
  "collectConfigs m ids =
     foldl (\<lambda>configs ident. case map_of m ident of
                               Some cfg \<Rightarrow> map_put ident cfg configs
                             | None \<Rightarrow> configs) [] ids"

definition GetToolsetsByIDs ::
  "(MCPServerConfig \<Rightarrow> error + 'j toolset) \<Rightarrow>
   ((string \<times> MCPServerConfig) list \<Rightarrow> (string \<times> MCPServerConfig) list) \<Rightarrow>
   (string \<times> MCPServerConfig) list \<Rightarrow> string list \<Rightarrow> 'j prefixedToolset list" where
  "GetToolsetsByIDs new rangeOrder m ids =
     (let configs = collectConfigs m ids
      in foldl (\<lambda>result (ident, cfg). case createToolset new cfg of
                                          Inl e \<Rightarrow> result
                                        | Inr ts \<Rightarrow> result @ [ts])
           [] (rangeOrder configs))"




section \<open>The system-role probe (the model factory)\<close>

datatype AIProvider =
  AIProviderOpenAI | AIProviderGemini | AIProviderVertexAI | AIProviderAnthropic
  | AIProviderOther string















section \<open>The meeting registry (app.go)\<close>

text \<open>
  The part of \<open>App\<close> that \<open>SendMeetingMessage\<close> and \<open>cancelMeetingInternal\<close> touch.
  A context made by \<open>context.WithCancel\<close> is identified by a number; \<open>meetingCancels\<close>
  maps a stock code to the cancel function of such a context, and \<open>cancelled\<close> holds the
  contexts whose cancel function has been called. \<open>sessions\<close> are the stock codes for
  which the session service has a session.
\<close>

record App =
  meetingCancels :: "(string \<times> nat) list"
  cancelled :: "nat set"
  nextCtx :: nat
  sessions :: "string list"
  hasAIConfig :: bool

record MeetingMessageRequest =
  mreq_StockCode :: string
  mreq_Content :: string
  mreq_MentionIds :: "string list"
  mreq_ReplyToId :: string
  mreq_ReplyContent :: string

definition cancelMeetingInternal :: "string \<Rightarrow> App \<Rightarrow> App" where
  "cancelMeetingInternal stockCode a =
     (case map_of (meetingCancels a) stockCode of
        Some cancel \<Rightarrow>
          a\<lparr>cancelled := insert cancel (cancelled a),
            meetingCancels := map_delete stockCode (meetingCancels a)\<rparr>
      | None \<Rightarrow> a)"

definition WithCancel :: "App \<Rightarrow> nat \<times> App" where
  "WithCancel a = (nextCtx a, a\<lparr>nextCtx := Suc (nextCtx a)\<rparr>)"

text \<open>
  \<open>SendMeetingMessage\<close> in three pieces. \<open>SendMeetingMessage_begin\<close> is the code up to
  the registration of the new cancel function; its result is \<open>None\<close> when the function
  returned because there is no session. \<open>SendMeetingMessage_end\<close> is the deferred
  clean-up. Between the two the meeting runs (\<open>run\<close>: saving the user's message and
  \<open>runSmartMeeting\<close> or \<open>runDirectMeeting\<close> under the new context), and that is
  where calls for other queries interleave.
\<close>

definition SendMeetingMessage_begin :: "MeetingMessageRequest \<Rightarrow> App \<Rightarrow> App \<times> nat option" where
  "SendMeetingMessage_begin req a =
     (if mreq_StockCode req \<notin> set (sessions a) then (a, None)
      else
        let a1 = cancelMeetingInternal (mreq_StockCode req) a;
            (meetingCtx, a2) = WithCancel a1;
            a3 = a2\<lparr>meetingCancels := map_put (mreq_StockCode req) meetingCtx (meetingCancels a2)\<rparr>
        in (a3, Some meetingCtx))"

definition SendMeetingMessage_end :: "MeetingMessageRequest \<Rightarrow> App \<Rightarrow> App" where
  "SendMeetingMessage_end req a =
     a\<lparr>meetingCancels := map_delete (mreq_StockCode req) (meetingCancels a)\<rparr>"

definition SendMeetingMessage ::
  "(nat \<Rightarrow> MeetingMessageRequest \<Rightarrow> App \<Rightarrow> App \<times> 'm list) \<Rightarrow> MeetingMessageRequest \<Rightarrow> App \<Rightarrow>
     App \<times> 'm list" where
  "SendMeetingMessage run req a =
     (case SendMeetingMessage_begin req a of
        (a1, None) \<Rightarrow> (a1, [])
      | (a1, Some meetingCtx) \<Rightarrow>
          (let (a2, msgs) = (if \<not> hasAIConfig a1 then (a1, []) else run meetingCtx req a1)
           in (SendMeetingMessage_end req a2, msgs)))"


section \<open>Notions used in the statements\<close>



text \<open>
  The predicates of the statements about yielded sequences. \<open>hasErrorEvent lines ev\<close>:
  some data line of \<open>lines\<close> arrives while the current event type (initially \<open>ev\<close>)
  is \<open>error\<close>. \<open>streamContract\<close>: partial increments followed by exactly one
  terminal aggregate or error. \<open>consumerStopped\<close>: the consumer's \<open>yield\<close> returned
  false on the last element.
\<close>

fun hasErrorEvent :: "string list \<Rightarrow> string \<Rightarrow> bool" where
  "hasErrorEvent [] eventType = False"
| "hasErrorEvent (line # rest) eventType =
     (if snd (CutPrefix line ''event: '') then hasErrorEvent rest (fst (CutPrefix line ''event: ''))
      else if \<not> snd (CutPrefix line ''data: '') then hasErrorEvent rest eventType
      else eventType = ''error'' \<or> hasErrorEvent rest eventType)"

definition isEventError :: "error \<Rightarrow> bool" where
  "isEventError e = (case e of SSEErrorRaw d \<Rightarrow> True | AnthropicAPIError t m \<Rightarrow> True | _ \<Rightarrow> False)"

definition streamContract :: "'j yielded list \<Rightarrow> bool" where
  "streamContract out =
     (out \<noteq> [] \<and> list_all isPartial (butlast out) \<and> (isTerminal (last out) \<or> isError (last out)))"

definition consumerStopped :: "(nat \<Rightarrow> bool) \<Rightarrow> 'j yielded list \<Rightarrow> bool" where
  "consumerStopped wants out = (out \<noteq> [] \<and> \<not> wants (length out - 1))"





text \<open>
  A stand-in for \<open>encoding/json\<close> in the closed examples below: maps marshal to
  \<open>{}\<close>, and the event payloads are the short names the examples use.
\<close>

definition exampleJSON :: "string encoding_json" where
  "exampleJSON =
     \<lparr>Marshal_string = (\<lambda>s. Some (''\"'' @ s @ ''\"'')),
      Marshal_map = (\<lambda>m. Some ''{}''),
      Marshal_schema = (\<lambda>s. Some ''{}''),
      Unmarshal_map = (\<lambda>s. if s = ''{}'' then Some Map.empty else None),
      Unmarshal_MessagesResponse =
        (\<lambda>s. if s = ''resp'' then
                Some \<lparr>resp_ID = ''msg_1'', resp_Type = ''message'', resp_Role = ''assistant'',
                      resp_Content = [(textBlock [])\<lparr>cb_Type := ''thinking'', cb_Thinking := ''plan''\<rparr>,
                                      textBlock ''Hi''],
                      resp_Model = ''claude'',
                      resp_StopReason = ''end_turn'', resp_StopSequence = None,
                      resp_Usage = \<lparr>InputTokens = 10, OutputTokens = 1\<rparr>\<rparr>
              else None),
      Unmarshal_SSEMessageStart =
        (\<lambda>s. if s = ''msg'' then
                Some \<lparr>resp_ID = ''msg_1'', resp_Type = ''message'', resp_Role = ''assistant'',
                      resp_Content = [], resp_Model = ''claude'',
                      resp_StopReason = [], resp_StopSequence = None,
                      resp_Usage = \<lparr>InputTokens = 10, OutputTokens = 1\<rparr>\<rparr>
              else None),
      Unmarshal_SSEContentBlockStart =
        (\<lambda>s. if s = ''start0'' then Some \<lparr>cbs_Index = 0, cbs_ContentBlock = textBlock []\<rparr>
              else if s = ''start1'' then
                Some \<lparr>cbs_Index = 1, cbs_ContentBlock = (textBlock [])\<lparr>cb_Type := ''thinking''\<rparr>\<rparr>
              else if s = ''start2'' then
                Some \<lparr>cbs_Index = 2, cbs_ContentBlock = toolUseBlock ''toolu_1'' ''get_quote'' []\<rparr>
              else None),
      Unmarshal_SSEContentBlockDelta =
        (\<lambda>s. if s = ''text0'' then
                Some \<lparr>cbd_Index = 0,
                      cbd_Delta = \<lparr>d_Type = ''text_delta'', d_Text = ''Hello'', d_Thinking = [],
                                   d_PartialJSON = []\<rparr>\<rparr>
              else if s = ''think1'' then
                Some \<lparr>cbd_Index = 1,
                      cbd_Delta = \<lparr>d_Type = ''thinking_delta'', d_Text = [], d_Thinking = ''hm'',
                                   d_PartialJSON = []\<rparr>\<rparr>
              else if s = ''json2'' then
                Some \<lparr>cbd_Index = 2,
                      cbd_Delta = \<lparr>d_Type = ''input_json_delta'', d_Text = [], d_Thinking = [],
                                   d_PartialJSON = ''{bad''\<rparr>\<rparr>
              else if s = ''text9'' then
                Some \<lparr>cbd_Index = 9,
                      cbd_Delta = \<lparr>d_Type = ''text_delta'', d_Text = ''lost'', d_Thinking = [],
                                   d_PartialJSON = []\<rparr>\<rparr>
              else None),
      Unmarshal_SSEMessageDelta =
        (\<lambda>s. if s = ''stop'' then
                Some \<lparr>md_StopReason = ''end_turn'',
                      md_Usage = Some \<lparr>InputTokens = 10, OutputTokens = 5\<rparr>\<rparr>
              else None),
      Unmarshal_SSEError =
        (\<lambda>s. if s = ''overloaded'' then
                Some \<lparr>se_Type = ''overloaded_error'', se_Message = ''Overloaded''\<rparr>
              else None)\<rparr>"

text \<open>
  Example streams: one whose blocks start out of index order and that carries an
  unparsable data line, a delta for an unknown index and unparsable tool arguments; one
  with a thinking block; one cut by a cancellation; one with an error event.
\<close>

definition exampleStream :: sse_body where
  "exampleStream =
     \<lparr>sse_lines =
        [''event: message_start'', ''data: msg'',
         ''event: content_block_start'', ''data: start2'',
         ''event: content_block_start'', ''data: start0'',
         ''event: content_block_delta'', ''data: garbage'', ''data: text9'', ''data: json2'',
         ''data: text0'',
         ''event: content_block_stop'', ''data: x'',
         ''event: message_delta'', ''data: stop'',
         ''event: message_stop'', ''data: x''],
      sse_err = None\<rparr>"

definition exampleThinkingStream :: sse_body where
  "exampleThinkingStream =
     \<lparr>sse_lines =
        [''event: content_block_start'', ''data: start1'',
         ''event: content_block_delta'', ''data: think1''],
      sse_err = None\<rparr>"

definition exampleCancelledStream :: sse_body where
  "exampleCancelledStream =
     \<lparr>sse_lines =
        [''event: content_block_start'', ''data: start0'',
         ''event: content_block_delta'', ''data: text0''],
      sse_err = Some ContextCanceled\<rparr>"


definition exampleDoRequest :: "sse_body \<Rightarrow> MessagesRequest \<Rightarrow> error + http_response" where
  "exampleDoRequest body ar =
     Inr \<lparr>hr_StatusCode = 200, hr_data = ''resp'', hr_read_err = None, hr_sse = body\<rparr>"

definition exampleContents :: "string Content option list" where
  "exampleContents =
     [Some \<lparr>c_Role = ''user'', c_Parts = [textPart ''part1'']\<rparr>,
      Some \<lparr>c_Role = ''user'', c_Parts = [textPart ''part2'']\<rparr>,
      None,
      Some \<lparr>c_Role = ''model'', c_Parts = [thoughtPart ''hm'', textPart ''ok'']\<rparr>]"

definition exampleMessages :: "Message list" where
  "exampleMessages =
     [\<lparr>m_Role = ''user'', m_Content = [textBlock ''part1'', textBlock ''part2'']\<rparr>,
      \<lparr>m_Role = ''assistant'', m_Content = [textBlock ''ok'']\<rparr>]"

definition exampleRequest :: "string LLMRequest" where
  "exampleRequest =
     \<lparr>req_Contents = exampleContents,
      req_Config = Some \<lparr>cfg_SystemInstruction = None, cfg_Tools = [], cfg_Temperature = None,
                         cfg_MaxOutputTokens = 32, cfg_TopP = None, cfg_StopSequences = []\<rparr>\<rparr>"



definition responses_GenerateContent ::
  "('j, 'q, 'a) responses_env \<Rightarrow> ('j, 'p) responses_lib \<Rightarrow> (nat \<Rightarrow> bool) \<Rightarrow> 'j LLMRequest \<Rightarrow>
     bool \<Rightarrow> 'j yielded list" where
  "responses_GenerateContent env lib wants req stream =
     (if stream then responses_generateStream env lib wants req
      else responses_generate env req)"


definition notThinkingBlock :: "ContentBlock \<Rightarrow> bool" where
  "notThinkingBlock b = (cb_Thinking b = [] \<and> cb_Type b \<noteq> ''thinking'')"



text \<open>
  Example tools and servers. \<open>mcptoolset.New\<close> only builds a toolset around the
  transport and connects when the tools are asked for: for the server with id
  \<open>down\<close>, which cannot be reached, it returns a toolset whose \<open>Tools\<close> fails.
  For the server with id \<open>broken\<close> the creation itself fails.
\<close>

definition exampleTool :: "string tool" where
  "exampleTool =
     \<lparr>tool_Name = ''search'', tool_Description = ''web search'', tool_IsLongRunning = False,
      tool_functionTool =
        Some \<lparr>ft_Declaration =
                Some \<lparr>fd_Name = ''search'', fd_Description = ''web search'',
                      fd_ParametersJsonSchema = Some ''{}'', fd_Parameters = None,
                      fd_ResponseJsonSchema = None\<rparr>,
              ft_Run = (\<lambda>args. Inr args)\<rparr>\<rparr>"

definition exampleServer :: "string \<Rightarrow> string \<Rightarrow> MCPServerConfig" where
  "exampleServer ident name =
     \<lparr>sc_ID = ident, sc_Name = name, sc_Enabled = True, sc_TransportType = ''http'',
      sc_Endpoint = ''http://localhost/mcp'', sc_Command = [], sc_Args = []\<rparr>"

definition exampleNew :: "MCPServerConfig \<Rightarrow> error + string toolset" where
  "exampleNew cfg =
     (if sc_ID cfg = ''broken'' then Inl (ConvertFailed ''no toolset'')
      else if sc_ID cfg = ''down'' then
        Inr \<lparr>ts_Name = ''mcp'', ts_Tools = Inl (RequestFailed ''unreachable'')\<rparr>
      else Inr \<lparr>ts_Name = ''mcp'', ts_Tools = Inr [exampleTool]\<rparr>)"


definition toolNames :: "'j prefixedToolset \<Rightarrow> error + string list" where
  "toolNames ts = (case pts_Tools ts of Inl e \<Rightarrow> Inl e | Inr tools \<Rightarrow> Inr (map pt_Name tools))"



definition exampleTwins :: "(string \<times> MCPServerConfig) list" where
  "exampleTwins =
     LoadConfigs [exampleServer ''mcp-1'' ''New MCP'', exampleServer ''mcp-2'' ''New MCP'']"






text \<open>
  A stand-in for the Responses decoders and parsers, and a stream in which the item
  \<open>fc_1\<close> is announced a second time after \<open>fc_2\<close>.
\<close>

definition exampleResponsesLib :: "(string, unit) responses_lib" where
  "exampleResponsesLib =
     \<lparr>Unmarshal_TextDelta = (\<lambda>s. None),
      Unmarshal_FuncCallArgsDelta = (\<lambda>s. None),
      Unmarshal_OutputItemAdded =
        (\<lambda>s. if s = ''added_fc1'' then
                Some \<lparr>it_Type = ''function_call'', it_ID = ''fc_1'', it_CallID = ''call_1'',
                      it_Name = ''get_quote'', it_Arguments = []\<rparr>
              else if s = ''added_fc2'' then
                Some \<lparr>it_Type = ''function_call'', it_ID = ''fc_2'', it_CallID = ''call_2'',
                      it_Name = ''get_news'', it_Arguments = []\<rparr>
              else None),
      Unmarshal_OutputItemDone = (\<lambda>s. None),
      Unmarshal_Completed = (\<lambda>s. None),
      newThinkTagStreamParser = (),
      Feed = (\<lambda>p s. (p, [\<lparr>seg_Text = s, seg_Thought = False\<rparr>])),
      Flush = (\<lambda>p. []),
      parseVendorToolCalls = (\<lambda>s. ([], s)),
      parseJSONArgs = (\<lambda>s. Map.empty)\<rparr>"

definition exampleReannouncedStream :: sse_body where
  "exampleReannouncedStream =
     \<lparr>sse_lines =
        [''event: response.output_item.added'', ''data: added_fc1'',
         ''event: response.output_item.added'', ''data: added_fc2'',
         ''event: response.output_item.added'', ''data: added_fc1''],
      sse_err = None\<rparr>"

text \<open>An application with a session for one stock, and a query for it.\<close>

definition exampleApp :: App where
  "exampleApp =
     \<lparr>meetingCancels = [], cancelled = {}, nextCtx = 0, sessions = [''600519''],
      hasAIConfig = True\<rparr>"

definition exampleQuery :: MeetingMessageRequest where
  "exampleQuery =
     \<lparr>mreq_StockCode = ''600519'', mreq_Content = ''outlook?'', mreq_MentionIds = [],
      mreq_ReplyToId = [], mreq_ReplyContent = []\<rparr>"

section \<open>Maps as association lists\<close>

lemma map_of_map_put: "map_of (map_put k v m) = (map_of m)(k \<mapsto> v)"
  by (induction m) auto

section \<open>Request conversion: token limit, role alternation, thought parts\<close>

lemma applyConfig_MaxTokens:
  "mr_MaxTokens (applyConfig cfg ar) =
     (if 0 < sint (cfg_MaxOutputTokens cfg) then sint (cfg_MaxOutputTokens cfg) else mr_MaxTokens ar)"
  by (simp add: applyConfig_def Let_def split: option.splits)

text \<open>
  C9. A successful \<open>toAnthropicRequest\<close> sets \<open>max_tokens\<close> to the configured
  \<open>MaxOutputTokens\<close> when that is positive, and to the default 4096 when there is no
  configuration or the configured value is not positive; the field is always positive.
\<close>

theorem toAnthropicRequest_max_tokens:
  assumes "toAnthropicRequest js req modelName = Inr ar"
  shows "mr_MaxTokens ar =
           (case req_Config req of
              None \<Rightarrow> 4096
            | Some cfg \<Rightarrow>
                if 0 < sint (cfg_MaxOutputTokens cfg) then sint (cfg_MaxOutputTokens cfg) else 4096)
         \<and> 0 < mr_MaxTokens ar"
  using assms
  by (auto simp: toAnthropicRequest_def Let_def applyConfig_MaxTokens
           split: option.splits sum.splits if_splits)

lemma exampleContents_converted:
  "toAnthropicMessages exampleJSON exampleContents = Inr exampleMessages"
  by (simp add: toAnthropicMessages_def exampleContents_def exampleMessages_def exampleJSON_def
        convertPart_def textPart_def thoughtPart_def Let_def)

theorem toAnthropicRequest_max_tokens_witness:
  "(\<exists>ar. toAnthropicRequest exampleJSON exampleRequest ''claude'' = Inr ar
         \<and> mr_MaxTokens ar = 32 \<and> 0 < mr_MaxTokens ar)
   \<and> (\<exists>ar. toAnthropicRequest exampleJSON (exampleRequest\<lparr>req_Config := None\<rparr>) ''claude'' = Inr ar
         \<and> mr_MaxTokens ar = 4096 \<and> 0 < mr_MaxTokens ar)"
proof -
  obtain ar where h: "toAnthropicRequest exampleJSON exampleRequest ''claude'' = Inr ar"
    by (simp add: toAnthropicRequest_def exampleRequest_def exampleContents_converted Let_def)
  from toAnthropicRequest_max_tokens[OF h]
  have "mr_MaxTokens ar = 32 \<and> 0 < mr_MaxTokens ar"
    by (simp add: exampleRequest_def)
  with h have first: "\<exists>ar. toAnthropicRequest exampleJSON exampleRequest ''claude'' = Inr ar
         \<and> mr_MaxTokens ar = 32 \<and> 0 < mr_MaxTokens ar"
    by blast
  obtain ar' where h': "toAnthropicRequest exampleJSON (exampleRequest\<lparr>req_Config := None\<rparr>) ''claude'' = Inr ar'"
    by (simp add: toAnthropicRequest_def exampleRequest_def exampleContents_converted Let_def)
  from toAnthropicRequest_max_tokens[OF h']
  have "mr_MaxTokens ar' = 4096 \<and> 0 < mr_MaxTokens ar'"
    by simp
  with h' have "\<exists>ar. toAnthropicRequest exampleJSON (exampleRequest\<lparr>req_Config := None\<rparr>) ''claude'' = Inr ar
         \<and> mr_MaxTokens ar = 4096 \<and> 0 < mr_MaxTokens ar"
    by blast
  with first show ?thesis by blast
qed












section \<open>The Anthropic stream: shape of the yielded sequence, malformed input\<close>

lemma isPartial_partialResponse [simp]: "isPartial (Inr (partialResponse p))"
  by (simp add: isPartial_def partialResponse_def)

lemma handleDelta_cases:
  assumes "handleDelta js wants data st = (st', r)" and "list_all isPartial (st_yielded st)"
  shows "list_all isPartial (st_yielded st')
         \<and> (\<forall>e. r \<noteq> ReturnError e)
         \<and> (r = ReturnStopIteration \<longrightarrow> consumerStopped wants (st_yielded st'))"
  using assms
  by (auto simp: handleDelta_def yield_def Let_def consumerStopped_def
           split: option.splits if_splits)

lemma handleSSEEvent_cases:
  assumes "handleSSEEvent js wants eventType data st = (st', r)"
    and "list_all isPartial (st_yielded st)"
  shows "list_all isPartial (st_yielded st')
         \<and> (r = ReturnStopIteration \<longrightarrow> consumerStopped wants (st_yielded st'))
         \<and> (\<forall>e. r = ReturnError e \<longrightarrow> eventType = ''error'' \<and> isEventError e)"
proof (cases "eventType = ''content_block_delta''")
  case True
  with assms have "handleDelta js wants data st = (st', r)"
    by (simp add: handleSSEEvent_def)
  from handleDelta_cases[OF this assms(2)] show ?thesis by simp
next
  case False
  with assms show ?thesis
    by (auto simp: handleSSEEvent_def Let_def isEventError_def split: option.splits if_splits)
qed

lemma scanLoop_cases:
  assumes "scanLoop js wants lines eventType st = (st', scanned)"
    and "list_all isPartial (st_yielded st)"
  shows "(scanned \<longrightarrow> list_all isPartial (st_yielded st'))
         \<and> (\<not> scanned \<longrightarrow>
              (list_all isPartial (st_yielded st') \<and> consumerStopped wants (st_yielded st'))
              \<or> (hasErrorEvent lines eventType
                  \<and> (\<exists>ps e. st_yielded st' = ps @ [Inl e] \<and> list_all isPartial ps \<and> isEventError e)))"
  using assms
proof (induction lines arbitrary: eventType st)
  case Nil
  then show ?case by simp
next
  case (Cons line rest)
  show ?case
  proof (cases "snd (CutPrefix line ''event: '')")
    case True
    with Cons.prems have "scanLoop js wants rest (fst (CutPrefix line ''event: '')) st = (st', scanned)"
      by simp
    from Cons.IH[OF this Cons.prems(2)] True show ?thesis by simp
  next
    case notev: False
    show ?thesis
    proof (cases "snd (CutPrefix line ''data: '')")
      case False
      with notev Cons.prems have "scanLoop js wants rest eventType st = (st', scanned)"
        by simp
      from Cons.IH[OF this Cons.prems(2)] notev False show ?thesis by simp
    next
      case True
      obtain st1 r where h: "handleSSEEvent js wants eventType (fst (CutPrefix line ''data: '')) st = (st1, r)"
        by (cases "handleSSEEvent js wants eventType (fst (CutPrefix line ''data: '')) st")
      note hc = handleSSEEvent_cases[OF h Cons.prems(2)]
      show ?thesis
      proof (cases r)
        case ReturnNil
        with notev True h Cons.prems have "scanLoop js wants rest eventType st1 = (st', scanned)"
          by simp
        from Cons.IH[OF this] hc notev True show ?thesis by auto
      next
        case ReturnStopIteration
        with notev True h Cons.prems have "st' = st1" "\<not> scanned" by simp_all
        with hc ReturnStopIteration show ?thesis by simp
      next
        case (ReturnError e)
        with notev True h Cons.prems
        have "st' = st1\<lparr>st_yielded := fst (yield wants (Inl e) (st_yielded st1))\<rparr>" "\<not> scanned"
          by simp_all
        with hc ReturnError notev True show ?thesis by (auto simp: yield_def)
      qed
    qed
  qed
qed

lemma isTerminal_final [simp]:
  "isTerminal (Inr \<lparr>r_Content = c, r_UsageMetadata = u, r_FinishReason = f, r_Partial = False, r_TurnComplete = True\<rparr>)"
  by (simp add: isTerminal_def)

lemma streamContract_snoc:
  "list_all isPartial ps \<Longrightarrow> isTerminal x \<or> isError x \<Longrightarrow> streamContract (ps @ [x])"
  by (simp add: streamContract_def)

lemma processStream_shape:
  "streamContract (processStream js wants body)
   \<or> (list_all isPartial (processStream js wants body)
       \<and> (consumerStopped wants (processStream js wants body)
           \<or> sse_err body = Some ContextCanceled))"
proof -
  let ?st0 = "\<lparr>st_blocks = [], st_stopReason = [], st_usage = None, st_yielded = ([] :: 'a yielded list)\<rparr>"
  obtain st scanned where h: "scanLoop js wants (sse_lines body) [] ?st0 = (st, scanned)"
    by (cases "scanLoop js wants (sse_lines body) [] ?st0")
  have "list_all isPartial (st_yielded ?st0)" by simp
  note sc = scanLoop_cases[OF h this]
  show ?thesis
  proof (cases scanned)
    case False
    then have out: "processStream js wants body = st_yielded st"
      using h by (simp add: processStream_def)
    from sc False consider
      "list_all isPartial (st_yielded st)" "consumerStopped wants (st_yielded st)"
      | ps e where "st_yielded st = ps @ [Inl e]" "list_all isPartial ps"
      by blast
    then show ?thesis
    proof cases
      case 1
      with out show ?thesis by simp
    next
      case 2
      then have "streamContract (st_yielded st)"
        by (simp add: streamContract_snoc isError_def)
      with out show ?thesis by simp
    qed
  next
    case True
    with sc have p: "list_all isPartial (st_yielded st)" by simp
    show ?thesis
    proof (cases "sse_err body")
      case None
      with True h have "processStream js wants body = st_yielded (emitFinalResponse js wants st)"
        by (simp add: processStream_def)
      moreover have "streamContract (st_yielded (emitFinalResponse js wants st))"
        using p by (simp add: emitFinalResponse_def yield_def Let_def streamContract_snoc)
      ultimately show ?thesis by simp
    next
      case (Some err)
      show ?thesis
      proof (cases "err = ContextCanceled")
        case True
        with Some \<open>scanned\<close> h have "processStream js wants body = st_yielded st"
          by (simp add: processStream_def)
        with p Some True show ?thesis by simp
      next
        case False
        with Some \<open>scanned\<close> h
        have "processStream js wants body = st_yielded st @ [Inl (SSEReadError err)]"
          by (simp add: processStream_def yield_def)
        moreover have "streamContract (st_yielded st @ [Inl (SSEReadError err)])"
          using p by (simp add: streamContract_snoc isError_def)
        ultimately show ?thesis by simp
      qed
    qed
  qed
qed


lemma isPartial_Inl [simp]: "\<not> isPartial (Inl e)"
  by (simp add: isPartial_def)



lemma processStream_clean_end:
  assumes "\<not> hasErrorEvent (sse_lines body) []" and "sse_err body = None" and "\<forall>n. wants n"
  shows "\<exists>ps t. processStream js wants body = ps @ [t] \<and> list_all isPartial ps \<and> isTerminal t"
proof -
  let ?st0 = "\<lparr>st_blocks = [], st_stopReason = [], st_usage = None, st_yielded = ([] :: 'a yielded list)\<rparr>"
  obtain st scanned where h: "scanLoop js wants (sse_lines body) [] ?st0 = (st, scanned)"
    by (cases "scanLoop js wants (sse_lines body) [] ?st0")
  have "list_all isPartial (st_yielded ?st0)" by simp
  note sc = scanLoop_cases[OF h this]
  have scanned: scanned
  proof (rule ccontr)
    assume "\<not> scanned"
    with sc assms(1) have "consumerStopped wants (st_yielded st)" by blast
    with assms(3) show False by (simp add: consumerStopped_def)
  qed
  with sc have p: "list_all isPartial (st_yielded st)" by simp
  from scanned h assms(2)
  have "processStream js wants body = st_yielded (emitFinalResponse js wants st)"
    by (simp add: processStream_def)
  then have "processStream js wants body =
      st_yielded st @ [Inr \<lparr>r_Content = Some \<lparr>c_Role = ''model'', c_Parts = aggregateParts js (st_blocks st)\<rparr>,
             r_UsageMetadata = convertUsage (st_usage st),
             r_FinishReason = convertStopReason (st_stopReason st),
             r_Partial = False, r_TurnComplete = True\<rparr>]"
    by (simp add: emitFinalResponse_def yield_def Let_def)
  with p show ?thesis using isTerminal_final by blast
qed




lemma aggregate_loop:
  "foldl (\<lambda>parts idx. case map_of blocks idx of
                           None \<Rightarrow> parts
                         | Some bs \<Rightarrow> parts @ blockParts js bs) acc indices
   = acc @ concat (map (\<lambda>idx. case map_of blocks idx of
                                 None \<Rightarrow> []
                               | Some bs \<Rightarrow> blockParts js bs) indices)"
  by (induction indices arbitrary: acc) (auto split: option.splits)

lemma aggregateParts_index_order:
  "aggregateParts js blocks
   = concat (map (\<lambda>idx. case map_of blocks idx of
                           None \<Rightarrow> []
                         | Some bs \<Rightarrow> blockParts js bs) (sort (map fst blocks)))"
  by (simp add: aggregateParts_def aggregate_loop)











lemmas stream_eval =
  processStream_def handleSSEEvent_def handleDelta_def emitFinalResponse_def aggregateParts_def
  blockParts_def toolUseArgs_def yield_def CutPrefix_def HasPrefix_def exampleJSON_def
  textBlock_def toolUseBlock_def Let_def convertUsage_def convertStopReason_def


lemma exampleThinkingStream_yields:
  "processStream exampleJSON (\<lambda>n. True) exampleThinkingStream =
     [Inr (partialResponse (thoughtPart ''hm'')),
      Inr \<lparr>r_Content = Some \<lparr>c_Role = ''model'', c_Parts = [thoughtPart ''hm'']\<rparr>,
           r_UsageMetadata = None,
           r_FinishReason = FinishReasonUnspecified, r_Partial = False, r_TurnComplete = True\<rparr>]"
  by (simp add: stream_eval exampleThinkingStream_def)

lemma exampleCancelledStream_yields:
  "processStream exampleJSON (\<lambda>n. True) exampleCancelledStream =
     [Inr (partialResponse (textPart ''Hello''))]"
  by (simp add: stream_eval exampleCancelledStream_def)














lemma generate_one:
  "\<exists>x. generate js doRequest req modelName = [x] \<and> (isTerminal x \<or> isError x)"
proof (cases "toAnthropicRequest js req modelName")
  case (Inl e)
  then show ?thesis by (simp add: generate_def isError_def)
next
  case (Inr ar)
  show ?thesis
  proof (cases "doRequest (ar\<lparr>mr_Stream := False\<rparr>)")
    case (Inl e)
    with Inr show ?thesis by (simp add: generate_def isError_def)
  next
    case resp: (Inr resp)
    obtain body err where r: "ReadAll_limited (10 * 1024 * 1024) resp = (body, err)"
      by (cases "ReadAll_limited (10 * 1024 * 1024) resp")
    show ?thesis
    proof (cases err)
      case (Some e)
      with Inr resp r show ?thesis by (simp add: generate_def isError_def)
    next
      case None
      show ?thesis
      proof (cases "hr_StatusCode resp \<noteq> 200")
        case True
        with Inr resp r None show ?thesis by (simp add: generate_def isError_def)
      next
        case False
        show ?thesis
        proof (cases "Unmarshal_MessagesResponse js body")
          case none: None
          with Inr resp r None False show ?thesis by (simp add: generate_def isError_def)
        next
          case (Some msgResp)
          with Inr resp r None False show ?thesis
            by (simp add: generate_def isTerminal_def convertAnthropicResponse_def)
        qed
      qed
    qed
  qed
qed

lemma generateStream_shape:
  "streamContract (generateStream js doRequest wants req modelName)
   \<or> (list_all isPartial (generateStream js doRequest wants req modelName)
       \<and> (consumerStopped wants (generateStream js doRequest wants req modelName)
           \<or> (\<exists>ar resp. toAnthropicRequest js req modelName = Inr ar
                 \<and> doRequest (ar\<lparr>mr_Stream := True\<rparr>) = Inr resp
                 \<and> hr_StatusCode resp = 200
                 \<and> sse_err (hr_sse resp) = Some ContextCanceled)))"
proof (cases "toAnthropicRequest js req modelName")
  case (Inl e)
  then have "generateStream js doRequest wants req modelName = [] @ [Inl e]"
    by (simp add: generateStream_def)
  then show ?thesis using streamContract_snoc[of "[]" "Inl e"] by (simp add: isError_def)
next
  case (Inr ar)
  show ?thesis
  proof (cases "doRequest (ar\<lparr>mr_Stream := True\<rparr>)")
    case (Inl e)
    with Inr have "generateStream js doRequest wants req modelName = [] @ [Inl e]"
      by (simp add: generateStream_def)
    then show ?thesis using streamContract_snoc[of "[]" "Inl e"] by (simp add: isError_def)
  next
    case resp: (Inr resp)
    show ?thesis
    proof (cases "hr_StatusCode resp \<noteq> 200")
      case True
      with Inr resp have "generateStream js doRequest wants req modelName
          = [] @ [Inl (HTTPStatus (hr_StatusCode resp) (fst (ReadAll_limited 2048 resp)))]"
        by (simp add: generateStream_def)
      then show ?thesis
        using streamContract_snoc[of "[]" "Inl (HTTPStatus (hr_StatusCode resp) (fst (ReadAll_limited 2048 resp)))"]
        by (simp add: isError_def)
    next
      case False
      with Inr resp have "generateStream js doRequest wants req modelName
          = processStream js wants (hr_sse resp)"
        by (simp add: generateStream_def)
      with processStream_shape[of js wants "hr_sse resp"] Inr resp False show ?thesis by auto
    qed
  qed
qed

section \<open>The Responses stream: shape of the yielded sequence\<close>

lemma emitTextSegments_cases:
  assumes "emitTextSegments wants segments st = (st', ok)"
    and "list_all isPartial (rs_yielded st)"
  shows "list_all isPartial (rs_yielded st')
         \<and> (\<not> ok \<longrightarrow> consumerStopped wants (rs_yielded st'))"
  using assms
proof (induction segments arbitrary: st)
  case Nil
  then show ?case by simp
next
  case (Cons seg rest)
  show ?case
  proof (cases "seg_Text seg = []")
    case True
    with Cons.prems have "emitTextSegments wants rest st = (st', ok)" by simp
    from Cons.IH[OF this Cons.prems(2)] show ?thesis .
  next
    case False
    define part :: "'a Part" where
      "part = \<lparr>p_Text = seg_Text seg, p_Thought = seg_Thought seg,
               p_FunctionCall = None, p_FunctionResponse = None\<rparr>"
    define st1 where
      "st1 = (if seg_Thought seg
              then st\<lparr>rs_thoughtContent := rs_thoughtContent st @ seg_Text seg\<rparr>
              else st\<lparr>rs_textContent := rs_textContent st @ seg_Text seg\<rparr>)"
    define st2 where
      "st2 = st1\<lparr>rs_yielded := rs_yielded st1 @ [Inr (partialResponse part)]\<rparr>"
    have y1: "rs_yielded st1 = rs_yielded st" by (simp add: st1_def)
    have p2: "list_all isPartial (rs_yielded st2)"
      using Cons.prems(2) by (simp add: st2_def y1)
    have eq: "emitTextSegments wants (seg # rest) st =
        (if \<not> wants (length (rs_yielded st1)) then (st2, False)
         else emitTextSegments wants rest st2)"
      using False by (simp add: Let_def yield_def st1_def st2_def part_def)
    show ?thesis
    proof (cases "wants (length (rs_yielded st1))")
      case True
      with eq Cons.prems(1) have "emitTextSegments wants rest st2 = (st', ok)" by simp
      from Cons.IH[OF this p2] show ?thesis .
    next
      case stop: False
      with eq Cons.prems(1) have "st' = st2" "\<not> ok" by simp_all
      moreover have "consumerStopped wants (rs_yielded st2)"
        using stop by (simp add: consumerStopped_def st2_def)
      ultimately show ?thesis using p2 by simp
    qed
  qed
qed

lemma handleTextDelta_cases:
  assumes "handleTextDelta lib wants data st = (st', ok)"
    and "list_all isPartial (rs_yielded st)"
  shows "list_all isPartial (rs_yielded st')
         \<and> (\<not> ok \<longrightarrow> consumerStopped wants (rs_yielded st'))"
proof (cases "Unmarshal_TextDelta lib data")
  case None
  with assms show ?thesis by (simp add: handleTextDelta_def)
next
  case (Some delta)
  obtain parser segments where f: "Feed lib (rs_thinkParser st) delta = (parser, segments)"
    by (cases "Feed lib (rs_thinkParser st) delta")
  with Some assms(1)
  have "emitTextSegments wants segments (st\<lparr>rs_thinkParser := parser\<rparr>) = (st', ok)"
    by (simp add: handleTextDelta_def)
  from emitTextSegments_cases[OF this] assms(2) show ?thesis by simp
qed

lemma handlers_keep_yielded [simp]:
  "rs_yielded (handleFuncArgsDelta lib data st) = rs_yielded st"
  "rs_yielded (handleOutputItemAdded lib data st) = rs_yielded st"
  "rs_yielded (handleOutputItemDone lib data st) = rs_yielded st"
  "rs_yielded (handleCompleted lib data st) = rs_yielded st"
  by (simp_all add: handleFuncArgsDelta_def handleOutputItemAdded_def handleOutputItemDone_def
        handleCompleted_def Let_def split: option.splits prod.splits)

lemma responsesLoop_cases:
  assumes "responsesLoop lib wants lines ev st = (st', scanned)"
    and "list_all isPartial (rs_yielded st)"
  shows "list_all isPartial (rs_yielded st')
         \<and> (\<not> scanned \<longrightarrow> consumerStopped wants (rs_yielded st'))"
  using assms
proof (induction lines arbitrary: ev st)
  case Nil
  then show ?case by simp
next
  case (Cons line rest)
  show ?case
  proof (cases "snd (CutPrefix line ''event: '')")
    case True
    with Cons.prems have "responsesLoop lib wants rest (fst (CutPrefix line ''event: '')) st = (st', scanned)"
      by simp
    from Cons.IH[OF this Cons.prems(2)] show ?thesis .
  next
    case notev: False
    show ?thesis
    proof (cases "\<not> snd (CutPrefix line ''data: '') \<or> fst (CutPrefix line ''data: '') = []")
      case True
      with notev Cons.prems have "responsesLoop lib wants rest ev st = (st', scanned)"
        by auto
      from Cons.IH[OF this Cons.prems(2)] show ?thesis .
    next
      case isdata: False
      define data where "data = fst (CutPrefix line ''data: '')"
      show ?thesis
      proof (cases "ev = ''response.output_text.delta''")
        case True
        obtain st1 ok where h: "handleTextDelta lib wants data st = (st1, ok)"
          by (cases "handleTextDelta lib wants data st")
        note hc = handleTextDelta_cases[OF h Cons.prems(2)]
        show ?thesis
        proof (cases ok)
          case True
          with notev isdata \<open>ev = _\<close> h Cons.prems(1)
          have "responsesLoop lib wants rest [] st1 = (st', scanned)"
            by (simp add: data_def Let_def)
          from Cons.IH[OF this] hc show ?thesis by simp
        next
          case False
          with notev isdata \<open>ev = _\<close> h Cons.prems(1)
          have "st' = st1" "\<not> scanned" by (simp_all add: data_def Let_def)
          with hc False show ?thesis by simp
        qed
      next
        case other: False
        then obtain st1 where
          l: "responsesLoop lib wants rest [] st1 = (st', scanned)" and
          y: "rs_yielded st1 = rs_yielded st"
          using notev isdata Cons.prems(1)
          by (auto simp: data_def Let_def split: if_splits)
        from Cons.IH[OF l] y Cons.prems(2) show ?thesis by simp
      qed
    qed
  qed
qed

lemma processResponsesStream_shape:
  "streamContract (processResponsesStream lib wants body)
   \<or> (list_all isPartial (processResponsesStream lib wants body)
       \<and> consumerStopped wants (processResponsesStream lib wants body))"
proof -
  let ?st0 = "\<lparr>rs_textContent = [], rs_thoughtContent = [], rs_toolCallsMap = [],
                 rs_toolCallOrder = [], rs_usageMetadata = None,
                 rs_thinkParser = newThinkTagStreamParser lib,
                 rs_yielded = ([] :: 'a yielded list)\<rparr>"
  obtain st scanned where h: "responsesLoop lib wants (sse_lines body) [] ?st0 = (st, scanned)"
    by (cases "responsesLoop lib wants (sse_lines body) [] ?st0")
  have "list_all isPartial (rs_yielded ?st0)" by simp
  note sc = responsesLoop_cases[OF h this]
  show ?thesis
  proof (cases scanned)
    case False
    with h have "processResponsesStream lib wants body = rs_yielded st"
      by (simp add: processResponsesStream_def)
    with sc False show ?thesis by simp
  next
    case True
    show ?thesis
    proof (cases "sse_err body")
      case (Some err)
      with True h have "processResponsesStream lib wants body = rs_yielded st @ [Inl (SSEReadError err)]"
        by (simp add: processResponsesStream_def yield_def)
      moreover have "streamContract (rs_yielded st @ [Inl (SSEReadError err)])"
        using sc by (simp add: streamContract_snoc isError_def)
      ultimately show ?thesis by simp
    next
      case None
      obtain st1 ok where f: "emitTextSegments wants (Flush lib (rs_thinkParser st)) st = (st1, ok)"
        by (cases "emitTextSegments wants (Flush lib (rs_thinkParser st)) st")
      from emitTextSegments_cases[OF f] sc
      have fc: "list_all isPartial (rs_yielded st1)" "\<not> ok \<longrightarrow> consumerStopped wants (rs_yielded st1)"
        by simp_all
      show ?thesis
      proof (cases ok)
        case False
        with True None h f have "processResponsesStream lib wants body = rs_yielded st1"
          by (simp add: processResponsesStream_def)
        with fc False show ?thesis by simp
      next
        case ok: True
        with True None h f
        have "processResponsesStream lib wants body = rs_yielded st1 @ [Inr (responsesFinal lib st1)]"
          by (simp add: processResponsesStream_def yield_def)
        moreover have "isTerminal (Inr (responsesFinal lib st1))"
          by (simp add: responsesFinal_def isTerminal_def Let_def split: prod.splits)
        ultimately show ?thesis using fc(1) by (simp add: streamContract_snoc)
      qed
    qed
  qed
qed

lemma responses_generate_one: "length (responses_generate env req) = 1"
  by (simp add: responses_generate_def split: sum.splits option.splits)

lemma streamContract_error: "streamContract [Inl e]"
  by (simp add: streamContract_def isError_def)

lemma responses_generateStream_shape:
  "streamContract (responses_generateStream env lib wants req)
   \<or> (list_all isPartial (responses_generateStream env lib wants req)
       \<and> consumerStopped wants (responses_generateStream env lib wants req))"
  using processResponsesStream_shape[of lib wants]
  by (simp add: responses_generateStream_def streamContract_error split: sum.splits option.splits)

section \<open>The Generate contract\<close>

text \<open>
  C5, as amended. Without streaming the Anthropic generator yields exactly one element, a
  terminal aggregate or an error, and the Responses generator exactly one element. With
  streaming both yield partial increments followed by exactly one terminal aggregate or
  exactly one error, except that the sequence ends after the increments, with neither,
  when the consumer stops ranging or, in the Anthropic adapter, when the request that
  was sent was answered with status 200 and the scanner of its body fails with a context
  cancellation.
\<close>

theorem GenerateContent_sequence_shape:
  "(\<exists>x. GenerateContent js doRequest wants req modelName False = [x]
        \<and> (isTerminal x \<or> isError x))
   \<and> (streamContract (GenerateContent js doRequest wants req modelName True)
       \<or> (list_all isPartial (GenerateContent js doRequest wants req modelName True)
           \<and> (consumerStopped wants (GenerateContent js doRequest wants req modelName True)
               \<or> (\<exists>ar resp. toAnthropicRequest js req modelName = Inr ar
                     \<and> doRequest (ar\<lparr>mr_Stream := True\<rparr>) = Inr resp
                     \<and> hr_StatusCode resp = 200
                     \<and> sse_err (hr_sse resp) = Some ContextCanceled))))
   \<and> length (responses_GenerateContent env lib wants' req' False) = 1
   \<and> (streamContract (responses_GenerateContent env lib wants' req' True)
       \<or> (list_all isPartial (responses_GenerateContent env lib wants' req' True)
           \<and> consumerStopped wants' (responses_GenerateContent env lib wants' req' True)))"
  using generate_one[of js doRequest req modelName]
    generateStream_shape[of js doRequest wants req modelName]
    responses_generate_one[of env req']
    responses_generateStream_shape[of env lib wants' req']
  by (simp add: GenerateContent_def responses_GenerateContent_def)

lemma exampleRequest_converts:
  "\<exists>ar. toAnthropicRequest exampleJSON exampleRequest ''claude'' = Inr ar"
  by (simp add: toAnthropicRequest_def exampleRequest_def exampleContents_converted Let_def)

lemma example_cancelled_run:
  "GenerateContent exampleJSON (exampleDoRequest exampleCancelledStream) (\<lambda>n. True)
     exampleRequest ''claude'' True
   = [Inr (partialResponse (textPart ''Hello''))]"
proof -
  obtain ar where "toAnthropicRequest exampleJSON exampleRequest ''claude'' = Inr ar"
    using exampleRequest_converts by blast
  then show ?thesis
    by (simp add: GenerateContent_def generateStream_def exampleDoRequest_def
          exampleCancelledStream_yields)
qed

text \<open>
  C5 as stated fails: a stream cut by cancellation after one text delta yields that
  increment and then neither a terminal aggregate nor an error.
\<close>

theorem cancelled_stream_counterexample:
  "\<not> streamContract
        (GenerateContent exampleJSON (exampleDoRequest exampleCancelledStream) (\<lambda>n. True)
           exampleRequest ''claude'' True)"
  by (simp add: example_cancelled_run streamContract_def isTerminal_def isError_def
        partialResponse_def)

theorem GenerateContent_sequence_shape_witness:
  "streamContract
     (GenerateContent exampleJSON (exampleDoRequest exampleStream) (\<lambda>n. True)
        exampleRequest ''claude'' True)
   \<and> (\<exists>x. GenerateContent exampleJSON (exampleDoRequest exampleStream) (\<lambda>n. True)
             exampleRequest ''claude'' False = [x] \<and> (isTerminal x \<or> isError x))"
proof -
  have "\<not> consumerStopped (\<lambda>n. True)
          (GenerateContent exampleJSON (exampleDoRequest exampleStream) (\<lambda>n. True)
             exampleRequest ''claude'' True)"
    by (simp add: consumerStopped_def)
  moreover have "\<not> (\<exists>ar resp. toAnthropicRequest exampleJSON exampleRequest ''claude'' = Inr ar
                     \<and> exampleDoRequest exampleStream (ar\<lparr>mr_Stream := True\<rparr>) = Inr resp
                     \<and> hr_StatusCode resp = 200
                     \<and> sse_err (hr_sse resp) = Some ContextCanceled)"
    by (auto simp: exampleDoRequest_def exampleStream_def)
  ultimately show ?thesis
    using GenerateContent_sequence_shape
      [of exampleJSON "exampleDoRequest exampleStream" "\<lambda>n. True" exampleRequest "''claude''"]
    by blast
qed

section \<open>Thought parts\<close>



lemma notThinking_blocks [simp]:
  "notThinkingBlock (textBlock t)"
  "notThinkingBlock (toolUseBlock i n j)"
  "notThinkingBlock (toolResultBlock i c)"
  by (simp_all add: notThinkingBlock_def textBlock_def toolUseBlock_def toolResultBlock_def)




















section \<open>Tool names and tool providers\<close>

lemma pt_Name_cut:
  "CutPrefix (pt_Name p) (pt_prefix p @ '':'') = (tool_Name (pt_inner p), True)"
  by (simp add: CutPrefix_def HasPrefix_def pt_Name_def)

lemma pt_Name_distinct_prefix:
  "pt_prefix p \<noteq> pt_prefix q \<Longrightarrow> tool_Name (pt_inner p) = tool_Name (pt_inner q) \<Longrightarrow>
   pt_Name p \<noteq> pt_Name q"
  by (simp add: pt_Name_def)

lemma pt_Declaration_name:
  "pt_Declaration p = Some decl \<Longrightarrow> fd_Name decl = pt_Name p"
  by (auto simp: pt_Declaration_def split: option.splits)

lemma pts_Tools_prefix:
  "pts_Tools ts = Inr tools \<Longrightarrow>
   list_all (\<lambda>t. pt_prefix t = pts_prefix ts) tools \<and> Inr (map pt_inner tools) = ts_Tools (pts_inner ts)"
  by (auto simp: pts_Tools_def list_all_iff o_def split: sum.splits)

lemma createToolset_prefix:
  "createToolset new cfg = Inr ts \<Longrightarrow> pts_prefix ts = sc_Name cfg"
  by (auto simp: createToolset_def NewPrefixedToolset_def split: sum.splits)

lemma pt_Name_same_prefix:
  "pt_prefix p = pt_prefix q \<Longrightarrow> tool_Name (pt_inner p) = tool_Name (pt_inner q) \<Longrightarrow>
   pt_Name p = pt_Name q"
  by (simp add: pt_Name_def)

text \<open>
  What holds of the prefixing: cutting the prefix \<open>label:\<close> off the name of a wrapped
  tool gives back the original name; two wrapped tools with different labels and the same
  original name have different names; the declaration of a wrapped tool, when there is
  one, carries the name \<open>Name()\<close> returns. The wrapped tools of a toolset all carry the
  toolset's label, which \<open>createToolset\<close> takes from the server's name, and \<open>Run\<close>
  goes to the original tool.
\<close>

lemma prefixed_tool_names:
  "CutPrefix (pt_Name p) (pt_prefix p @ '':'') = (tool_Name (pt_inner p), True)
   \<and> (pt_prefix p \<noteq> pt_prefix q \<longrightarrow> tool_Name (pt_inner p) = tool_Name (pt_inner q) \<longrightarrow>
        pt_Name p \<noteq> pt_Name q)
   \<and> (pt_Declaration p = Some decl \<longrightarrow> fd_Name decl = pt_Name p)
   \<and> (pts_Tools ts = Inr tools \<longrightarrow>
        list_all (\<lambda>t. pt_prefix t = pts_prefix ts) tools
        \<and> Inr (map pt_inner tools) = ts_Tools (pts_inner ts))
   \<and> (createToolset new cfg = Inr ts' \<longrightarrow> pts_prefix ts' = sc_Name cfg)
   \<and> (tool_functionTool (pt_inner p) = Some ft \<longrightarrow>
        pt_Run p args = (case ft_Run ft args of Inl e \<Rightarrow> Inl e | Inr result \<Rightarrow> Inr (Some result)))"
  using pt_Name_cut[of p] pt_Name_distinct_prefix[of p q] pt_Declaration_name[of p decl]
    pts_Tools_prefix[of ts tools] createToolset_prefix[of new cfg ts']
  by (simp add: pt_Run_def)

text \<open>
  The label is the name of the server, not its id: the tools two servers offer under the
  same original name get the same prefixed name exactly when the servers carry the same
  name.
\<close>

lemma provider_names_collide_iff:
  assumes "createToolset new cfg1 = Inr ts1" and "createToolset new cfg2 = Inr ts2"
    and "pts_Tools ts1 = Inr tools1" and "pts_Tools ts2 = Inr tools2"
    and "t1 \<in> set tools1" and "t2 \<in> set tools2"
    and "tool_Name (pt_inner t1) = tool_Name (pt_inner t2)"
  shows "pt_Name t1 = pt_Name t2 \<longleftrightarrow> sc_Name cfg1 = sc_Name cfg2"
proof -
  from pts_Tools_prefix[OF assms(3)] assms(5) createToolset_prefix[OF assms(1)]
  have p1: "pt_prefix t1 = sc_Name cfg1" by (simp add: list_all_iff)
  from pts_Tools_prefix[OF assms(4)] assms(6) createToolset_prefix[OF assms(2)]
  have p2: "pt_prefix t2 = sc_Name cfg2" by (simp add: list_all_iff)
  show ?thesis
    using pt_Name_distinct_prefix[of t1 t2] pt_Name_same_prefix[of t1 t2] assms(7) p1 p2
    by auto
qed

text \<open>
  The pairing of label and name is not injective once a label or a name may contain a
  colon.
\<close>

lemma pt_Name_colons:
  "pt_Name \<lparr>pt_inner = t\<lparr>tool_Name := ''b:c''\<rparr>, pt_prefix = ''a''\<rparr>
   = pt_Name \<lparr>pt_inner = t\<lparr>tool_Name := ''c''\<rparr>, pt_prefix = ''a:b''\<rparr>"
  by (simp add: pt_Name_def)

text \<open>
  C4 on the code: two servers configured under different ids and with the same name, each
  offering a tool \<open>search\<close>, are both loaded and both give a toolset, and the two
  tools get the same prefixed name.
\<close>

theorem same_name_providers_collide:
  "map fst exampleTwins = [''mcp-1'', ''mcp-2'']
   \<and> map (sc_Name \<circ> snd) exampleTwins = [''New MCP'', ''New MCP'']
   \<and> map toolNames (GetToolsetsByIDs exampleNew id exampleTwins [''mcp-1'', ''mcp-2''])
       = [Inr [''New MCP:search''], Inr [''New MCP:search'']]"
  by (simp add: exampleTwins_def LoadConfigs_def exampleServer_def GetToolsetsByIDs_def
        collectConfigs_def createToolset_def exampleNew_def NewPrefixedToolset_def toolNames_def
        pts_Tools_def pt_Name_def exampleTool_def)

lemma keys_map_put: "fst ` set (map_put k v m) = insert k (fst ` set m)"
  by (simp add: dom_map_of_conv_image_fst[symmetric] map_of_map_put)

lemma distinct_map_put: "distinct (map fst m) \<Longrightarrow> distinct (map fst (map_put k v m))"
proof (induction m)
  case Nil
  then show ?case by simp
next
  case (Cons a m)
  then show ?case using keys_map_put[of k v m] by (cases a) (auto simp: image_iff)
qed



















section \<open>The system-role probe\<close>














section \<open>Order of the blocks of a terminal aggregate\<close>

lemma aggregateParts_order_independent:
  assumes "distinct (map fst b1)" and "mset b1 = mset b2"
  shows "aggregateParts js b1 = aggregateParts js b2"
proof -
  from assms(2) have k0: "image_mset fst (mset b1) = image_mset fst (mset b2)" by (rule arg_cong)
  then have k: "mset (map fst b1) = mset (map fst b2)" by simp
  with assms(1) have d2: "distinct (map fst b2)" by (metis mset_eq_imp_distinct_iff)
  from assms(2) have "set b1 = set b2" by (rule mset_eq_setD)
  with assms(1) d2 have m: "map_of b1 = map_of b2" by (simp add: map_of_inject_set)
  have "sort (map fst b2) = sort (map fst b1)"
    by (rule properties_for_sort) (simp_all add: k0)
  with m show ?thesis by (simp add: aggregateParts_index_order)
qed

lemma scan_blocks_distinct_step:
  "distinct (map fst (st_blocks st)) \<Longrightarrow>
   distinct (map fst (st_blocks (fst (handleSSEEvent js wants eventType data st))))"
  by (auto simp: handleSSEEvent_def handleDelta_def yield_def Let_def distinct_map_put
           split: option.splits if_splits)

lemma handleOutputItemAdded_reannounced:
  assumes "Unmarshal_OutputItemAdded lib data = Some item"
    and "it_Type item = ''function_call''"
    and "it_ID item \<in> set (rs_toolCallOrder st)"
  shows "\<not> distinct (rs_toolCallOrder (handleOutputItemAdded lib data st))"
  using assms by (simp add: handleOutputItemAdded_def)

lemma handleOutputItemDone_registered:
  assumes "map_of (rs_toolCallsMap st) (it_ID item) = Some builder"
    and "Unmarshal_OutputItemDone lib data = Some item"
  shows "rs_toolCallOrder (handleOutputItemDone lib data st) = rs_toolCallOrder st"
  using assms by (simp add: handleOutputItemDone_def Let_def)

text \<open>
  C1 on the code: the Anthropic aggregate is in index order whatever order the map is
  visited in (the lemmas above), but the Responses adapter appends an item id to
  \<open>toolCallOrder\<close> on every \<open>output_item.added\<close>, also for an id it already holds.
  With \<open>fc_1\<close>, \<open>fc_2\<close>, \<open>fc_1\<close> announced, the terminal aggregate carries the
  call of \<open>fc_1\<close> twice, the second time after that of \<open>fc_2\<close>.
\<close>

theorem reannounced_item_emitted_twice:
  "processResponsesStream exampleResponsesLib (\<lambda>n. True) exampleReannouncedStream =
     [Inr \<lparr>r_Content =
             Some \<lparr>c_Role = ''model'',
                   c_Parts = [functionCallPart ''call_1'' ''get_quote'' Map.empty,
                              functionCallPart ''call_2'' ''get_news'' Map.empty,
                              functionCallPart ''call_1'' ''get_quote'' Map.empty]\<rparr>,
           r_UsageMetadata = None, r_FinishReason = FinishReasonStop,
           r_Partial = False, r_TurnComplete = True\<rparr>]"
  by (simp add: processResponsesStream_def exampleReannouncedStream_def exampleResponsesLib_def
        handleOutputItemAdded_def responsesFinal_def toolCallParts_def yield_def
        CutPrefix_def HasPrefix_def Let_def)

section \<open>The meeting registry\<close>

lemma map_of_map_delete: "map_of (map_delete k m) = (map_of m)(k := None)"
  by (induction m) (auto simp: fun_eq_iff)

lemma SendMeetingMessage_begin_cancels_registered:
  assumes "map_of (meetingCancels a) (mreq_StockCode req) = Some c"
    and "mreq_StockCode req \<in> set (sessions a)"
  shows "c \<in> cancelled (fst (SendMeetingMessage_begin req a))
         \<and> snd (SendMeetingMessage_begin req a) = Some (nextCtx a)
         \<and> map_of (meetingCancels (fst (SendMeetingMessage_begin req a))) (mreq_StockCode req)
             = Some (nextCtx a)"
  using assms
  by (simp add: SendMeetingMessage_begin_def cancelMeetingInternal_def WithCancel_def
        map_of_map_put Let_def)

text \<open>
  C3 on the code: the deferred clean-up of \<open>SendMeetingMessage\<close> deletes whatever is
  registered for the stock code, also the cancel function of a later query. Three queries
  for one stock: the second starts while the first runs (and cancels it); the first
  returns; the third starts while the second still runs. The context of the second
  query (number 1) is then not cancelled, and both it and the third run.
\<close>

theorem superseded_meeting_not_cancelled:
  "(let (a1, c1) = SendMeetingMessage_begin exampleQuery exampleApp;
        (a2, c2) = SendMeetingMessage_begin exampleQuery a1;
        a3 = SendMeetingMessage_end exampleQuery a2;
        (a4, c3) = SendMeetingMessage_begin exampleQuery a3
    in c1 = Some 0 \<and> c2 = Some 1 \<and> c3 = Some 2
       \<and> map_of (meetingCancels a3) ''600519'' = None
       \<and> cancelled a4 = {0}
       \<and> map_of (meetingCancels a4) ''600519'' = Some 2)"
  by (simp add: SendMeetingMessage_begin_def SendMeetingMessage_end_def cancelMeetingInternal_def
        WithCancel_def exampleApp_def exampleQuery_def Let_def)

end
